theory Spec2Isabelle
  imports Complex_Main
begin

section \<open>Python values shared by both pipelines\<close>

text \<open>
  Exceptions are values. \<open>PreprocessingError\<close> is the repository's own exception; the
  others are the Python built-ins that the modelled lines can raise implicitly (an
  unbound local, a missing dictionary key, an index out of range, a numpy or pandas
  shape complaint).
\<close>

datatype error =
    PreprocessingError string
  | UnboundLocalError string
  | KeyError string
  | IndexError
  | ValueError string
  | TypeError string
  | ZeroDivisionError

text \<open>\<open>str.lower\<close> on the ASCII letters; every other byte is left as it is.\<close>

definition lower_char :: "char \<Rightarrow> char" where
  "lower_char c =
     (case map_of (zip ''ABCDEFGHIJKLMNOPQRSTUVWXYZ'' ''abcdefghijklmnopqrstuvwxyz'') c of
        Some d \<Rightarrow> d
      | None \<Rightarrow> c)"

definition lower :: "string \<Rightarrow> string" where
  "lower s = map lower_char s"

text \<open>Python's substring test \<open>needle in hay\<close> on strings.\<close>

fun starts_with :: "string \<Rightarrow> string \<Rightarrow> bool" where
  "starts_with cs [] = True"
| "starts_with [] (p # ps) = False"
| "starts_with (c # cs) (p # ps) = (c = p \<and> starts_with cs ps)"

fun py_in :: "string \<Rightarrow> string \<Rightarrow> bool" where
  "py_in p [] = (p = [])"
| "py_in p (c # cs) = (starts_with (c # cs) p \<or> py_in p cs)"

text \<open>
  Indexing a sequence the Python way: a negative index counts from the end, anything
  outside raises \<open>IndexError\<close>.
\<close>

definition py_index :: "'a list \<Rightarrow> int \<Rightarrow> error + 'a" where
  "py_index xs i =
     (let j = (if i < 0 then i + int (length xs) else i)
      in if j < 0 \<or> int (length xs) \<le> j then Inl IndexError else Inr (xs ! nat j))"

section \<open>Arrays and the annotated matrix\<close>

text \<open>
  A numpy array is its shape tuple and its row-major buffer. Floating-point entries are
  modelled by \<open>real\<close>: no claim below depends on rounding.
\<close>

record 'a ndarray =
  shape :: "nat list"
  vals :: "'a list"

datatype layer_data =
    FloatArr "real ndarray"
  | BoolArr "bool ndarray"
  | UInt8Arr "nat ndarray"

definition is_uint8 :: "layer_data \<Rightarrow> bool" where
  "is_uint8 d = (case d of UInt8Arr a \<Rightarrow> True | _ \<Rightarrow> False)"

text \<open>The numeric view of an array (numpy reads \<open>True\<close> as 1 in arithmetic).\<close>

definition to_real :: "layer_data \<Rightarrow> real ndarray" where
  "to_real d =
     (case d of
        FloatArr a \<Rightarrow> a
      | BoolArr b \<Rightarrow> \<lparr>shape = shape b, vals = map (\<lambda>v. if v then 1 else 0) (vals b)\<rparr>
      | UInt8Arr u \<Rightarrow> \<lparr>shape = shape u, vals = map real (vals u)\<rparr>)"

text \<open>\<open>.astype(bool)\<close>: every non-zero entry becomes \<open>True\<close>.\<close>

definition astype_bool :: "layer_data \<Rightarrow> bool ndarray" where
  "astype_bool d =
     (case d of
        BoolArr b \<Rightarrow> b
      | FloatArr a \<Rightarrow> \<lparr>shape = shape a, vals = map (\<lambda>v. v \<noteq> 0) (vals a)\<rparr>
      | UInt8Arr u \<Rightarrow> \<lparr>shape = shape u, vals = map (\<lambda>v. v \<noteq> 0) (vals u)\<rparr>)"

text \<open>
  Element-wise operations. The arrays combined below have the shape of the image \<open>X\<close>;
  operands of unequal shape (where numpy would try to broadcast) are reported as the
  \<open>ValueError\<close> numpy raises for shapes that do not fit. \<open>same_shape\<close> also compares the
  sizes of the buffers, which for a numpy array is fixed by the shape.
\<close>

definition same_shape :: "'a ndarray \<Rightarrow> 'b ndarray \<Rightarrow> bool" where
  "same_shape a b = (shape a = shape b \<and> length (vals a) = length (vals b))"

definition np_zip :: "('a \<Rightarrow> 'b \<Rightarrow> 'c) \<Rightarrow> 'a ndarray \<Rightarrow> 'b ndarray \<Rightarrow> error + 'c ndarray" where
  "np_zip f a b =
     (if same_shape a b
      then Inr \<lparr>shape = shape a, vals = map (\<lambda>(x, y). f x y) (zip (vals a) (vals b))\<rparr>
      else Inl (ValueError ''operands could not be broadcast together''))"

definition np_map :: "('a \<Rightarrow> 'b) \<Rightarrow> 'a ndarray \<Rightarrow> 'b ndarray" where
  "np_map f a = \<lparr>shape = shape a, vals = map f (vals a)\<rparr>"

text \<open>\<open>mask += certain_mask\<close> on boolean arrays is the element-wise logical or.\<close>

definition np_ior :: "bool ndarray \<Rightarrow> bool ndarray \<Rightarrow> error + bool ndarray" where
  "np_ior msk certain = np_zip (\<or>) msk certain"

text \<open>\<open>np.clip(res + certain_mask, 0, 1)\<close>.\<close>

definition clip01 :: "real \<Rightarrow> real" where
  "clip01 v = min 1 (max 0 v)"

definition clip_add :: "real ndarray \<Rightarrow> bool ndarray \<Rightarrow> error + real ndarray" where
  "clip_add res certain = np_zip (\<lambda>r c. clip01 (r + (if c then 1 else 0))) res certain"

text \<open>\<open>res.max()\<close>: numpy refuses an empty array.\<close>

definition np_max :: "real ndarray \<Rightarrow> error + real" where
  "np_max a =
     (case vals a of
        [] \<Rightarrow> Inl (ValueError ''zero-size array to reduction operation maximum'')
      | v # vs \<Rightarrow> Inr (foldl max v vs))"

type_synonym kwargs = "(string \<times> real) list"

text \<open>\<open>kwargs or {}\<close>.\<close>

definition or_empty :: "kwargs option \<Rightarrow> kwargs" where
  "or_empty kw = (case kw of None \<Rightarrow> [] | Some d \<Rightarrow> d)"

text \<open>\<open>name or default\<close> on an optional string: \<open>None\<close> and the empty string are falsy.\<close>

definition or_default :: "string option \<Rightarrow> string \<Rightarrow> string" where
  "or_default name dflt = (case name of None \<Rightarrow> dflt | Some s \<Rightarrow> if s = [] then dflt else s)"

section \<open>Pixel scoring (\<open>icell.py\<close>)\<close>

text \<open>
  The statistical kernels live in the sibling modules \<open>utils\<close>, \<open>moran\<close>, \<open>em\<close>, \<open>vi\<close>
  and \<open>bp\<close>, and in skimage and OpenCV. The dispatcher is verified for every choice of
  them, so they are fields of a record passed in; \<open>'em\<close> and \<open>'vi\<close> are the types of the
  fitted parameters that \<open>run_em\<close> and \<open>run_vi\<close> return.
\<close>

datatype conv_mode = Gauss | Circle

record ('em, 'vi) estimators =
  conv2d :: "real ndarray \<Rightarrow> int \<Rightarrow> conv_mode \<Rightarrow> real ndarray option \<Rightarrow> real ndarray"
  scale_to_01 :: "real ndarray \<Rightarrow> real ndarray"
  run_moran :: "real ndarray \<Rightarrow> bool ndarray option \<Rightarrow> kwargs \<Rightarrow> real ndarray"
  true_divide :: "real ndarray \<Rightarrow> real \<Rightarrow> real ndarray"
  run_em :: "real ndarray \<Rightarrow> real ndarray option \<Rightarrow> kwargs \<Rightarrow> 'em"
  em_conditionals :: "real ndarray \<Rightarrow> 'em \<Rightarrow> real ndarray option \<Rightarrow> real ndarray \<times> real ndarray"
  em_confidence :: "real ndarray \<Rightarrow> 'em \<Rightarrow> real ndarray option \<Rightarrow> real ndarray"
  run_vi :: "real ndarray \<Rightarrow> real ndarray option \<Rightarrow> kwargs \<Rightarrow> 'vi"
  vi_conditionals :: "real ndarray \<Rightarrow> 'vi \<Rightarrow> real ndarray option \<Rightarrow> real ndarray \<times> real ndarray"
  run_bp :: "real ndarray \<Rightarrow> real ndarray \<Rightarrow> kwargs \<Rightarrow> real ndarray"
  threshold_multiotsu :: "real ndarray \<Rightarrow> nat \<Rightarrow> real list"
  threshold_otsu :: "real ndarray \<Rightarrow> real"
  threshold_local :: "real ndarray \<Rightarrow> int \<Rightarrow> int \<Rightarrow> real ndarray"
  adaptiveThreshold :: "real ndarray \<Rightarrow> int \<Rightarrow> int \<Rightarrow> real ndarray"
  mclose_mopen :: "bool ndarray \<Rightarrow> int \<Rightarrow> bool ndarray"
  apply_threshold :: "real ndarray \<Rightarrow> int \<Rightarrow> real \<Rightarrow> bool ndarray"

text \<open>The estimator calls a run of \<open>_score_pixels\<close> makes, in order.\<close>

datatype call =
    Conv2d conv_mode
  | ScaleTo01
  | RunMoran
  | RunEM
  | RunVI
  | EMConditionals
  | VIConditionals
  | RunBP
  | EMConfidence

definition valid_methods :: "string list" where
  "valid_methods =
     [''gauss'', ''moran'', ''em'', ''em+gauss'', ''em+bp'', ''vi+gauss'', ''vi+bp'']"

text \<open>
  \<open>background_cond[certain_mask] = 1e-2\<close> and \<open>cell_cond[certain_mask] = 1 - 1e-2\<close>:
  assignment through a boolean index array.
\<close>

definition mask_assign :: "real ndarray \<Rightarrow> bool ndarray \<Rightarrow> real \<Rightarrow> error + real ndarray" where
  "mask_assign a certain v =
     (if same_shape a certain
      then Inr \<lparr>shape = shape a, vals = map (\<lambda>(x, c). if c then v else x) (zip (vals a) (vals certain))\<rparr>
      else Inl IndexError)"

text \<open>
  The last \<open>else\<close> branch of \<open>_score_pixels\<close> (lines 224 to 249): EM or VI, then belief
  propagation or confidences, then the optional Gaussian blur. In the branch without
  belief propagation the name \<open>em_results\<close> is read; it is bound only when EM was run.
\<close>

datatype ('em, 'vi) fitted = FitEM 'em | FitVI 'vi

definition score_em_vi ::
  "('em, 'vi) estimators \<Rightarrow> real ndarray \<Rightarrow> int \<Rightarrow> string \<Rightarrow> kwargs \<Rightarrow> kwargs \<Rightarrow> kwargs \<Rightarrow>
     bool ndarray option \<Rightarrow> real ndarray option \<Rightarrow> (error + real ndarray) \<times> call list" where
  "score_em_vi est res k method em_kwargs vi_kwargs bp_kwargs certain_mask bins =
     (let fit = (if py_in ''em'' method then FitEM (run_em est res bins em_kwargs)
                 else FitVI (run_vi est res bins vi_kwargs));
          log1 = [case fit of FitEM er \<Rightarrow> RunEM | FitVI vr \<Rightarrow> RunVI];
          (r2, log2) =
            (if py_in ''bp'' method then
               (let (background_cond, cell_cond) =
                      (case fit of
                         FitEM er \<Rightarrow> em_conditionals est res er bins
                       | FitVI vr \<Rightarrow> vi_conditionals est res vr bins);
                    log_c = log1 @ [case fit of FitEM er \<Rightarrow> EMConditionals | FitVI vr \<Rightarrow> VIConditionals]
                in case certain_mask of
                     None \<Rightarrow> (Inr (run_bp est background_cond cell_cond bp_kwargs), log_c @ [RunBP])
                   | Some c \<Rightarrow>
                       (case mask_assign background_cond c (1 / 100) of
                          Inl e \<Rightarrow> (Inl e, log_c)
                        | Inr bg \<Rightarrow>
                            (case mask_assign cell_cond c (1 - 1 / 100) of
                               Inl e \<Rightarrow> (Inl e, log_c)
                             | Inr cl \<Rightarrow> (Inr (run_bp est bg cl bp_kwargs), log_c @ [RunBP]))))
             else
               (case fit of
                  FitVI vr \<Rightarrow> (Inl (UnboundLocalError ''em_results''), log1)
                | FitEM er \<Rightarrow>
                    (let conf = em_confidence est res er bins
                     in case certain_mask of
                          None \<Rightarrow> (Inr conf, log1 @ [EMConfidence])
                        | Some c \<Rightarrow> (clip_add conf c, log1 @ [EMConfidence]))))
      in case r2 of
           Inl e \<Rightarrow> (Inl e, log2)
         | Inr r \<Rightarrow>
             (if py_in ''gauss'' method
              then (Inr (conv2d est r k Gauss bins), log2 @ [Conv2d Gauss])
              else (Inr r, log2)))"

text \<open>
  \<open>_score_pixels\<close> (lines 140 to 251). A sparse \<open>X\<close> is first replaced by the dense array
  it denotes, so \<open>X\<close> is the dense array here; the logger calls are left out. The result
  is paired with the estimator calls made.
\<close>

definition score_pixels ::
  "('em, 'vi) estimators \<Rightarrow> real ndarray \<Rightarrow> int \<Rightarrow> string \<Rightarrow>
     kwargs option \<Rightarrow> kwargs option \<Rightarrow> kwargs option \<Rightarrow> kwargs option \<Rightarrow>
     bool ndarray option \<Rightarrow> real ndarray option \<Rightarrow> (error + real ndarray) \<times> call list" where
  "score_pixels est X k method0 moran_kwargs em_kwargs vi_kwargs bp_kwargs certain_mask bins =
     (if lower method0 \<notin> set valid_methods
      then (Inl (PreprocessingError (''Unknown method `'' @ method0 @ ''`'')), [])
      else if (case certain_mask of None \<Rightarrow> False | Some c \<Rightarrow> shape X \<noteq> shape c)
      then (Inl (PreprocessingError ''`certain_mask` does not have the same shape as `X`''), [])
      else if (case bins of None \<Rightarrow> False | Some b \<Rightarrow> shape X \<noteq> shape b)
      then (Inl (PreprocessingError ''`bins` does not have the same shape as `X`''), [])
      else
        (let method = lower method0;
             mode = (if method \<in> set [''gauss'', ''moran''] then Gauss else Circle);
             res = conv2d est X k mode bins
         in if method = ''gauss'' then (Inr (scale_to_01 est res), [Conv2d mode, ScaleTo01])
            else if method = ''moran'' then
              (let m = run_moran est res (map_option (np_map (\<lambda>v. 0 < v)) bins) (or_empty moran_kwargs)
               in case np_max m of
                    Inl e \<Rightarrow> (Inl e, [Conv2d mode, RunMoran])
                  | Inr mx \<Rightarrow> (Inr (true_divide est m mx), [Conv2d mode, RunMoran]))
            else
              (let (r, log) = score_em_vi est res k method (or_empty em_kwargs) (or_empty vi_kwargs)
                                (or_empty bp_kwargs) certain_mask bins
               in (r, Conv2d mode # log))))"

section \<open>The annotated matrix\<close>

datatype pyval = PInt int | PFloat real | PStr string

datatype dtype = Numeric | Category | Object

record column =
  dtype :: dtype
  cells :: "pyval list"

type_synonym matrix = "real list list"

datatype uns_val = UMatrix matrix | UDict "(string \<times> pyval) list"

record anndata =
  obs_names :: "string list"
  Xmat :: matrix
  obs :: "string \<rightharpoonup> column"
  obsm :: "string \<rightharpoonup> matrix"
  uns :: "string \<rightharpoonup> uns_val"
  layers :: "string \<rightharpoonup> layer_data"

text \<open>
  Modelled from the spec: the key manager \<open>SKM\<close> of \<open>spateo.configuration\<close> is not among
  the sources. The container is an annotated matrix with named auxiliary layers, so
  selecting a layer reads \<open>adata.layers[layer]\<close> (a missing key raises \<open>KeyError\<close>),
  setting one writes it, and the generated key is \<open>{layer}_{suffix}\<close> as the docstrings
  of \<open>icell.py\<close> say (\<open>{layer}_scores\<close>, \<open>{layer}_mask\<close>, \<open>{layer}_bins\<close>).
\<close>

definition select_layer_data :: "anndata \<Rightarrow> string \<Rightarrow> error + layer_data" where
  "select_layer_data adata layer =
     (case layers adata layer of None \<Rightarrow> Inl (KeyError layer) | Some d \<Rightarrow> Inr d)"

definition set_layer_data :: "anndata \<Rightarrow> string \<Rightarrow> layer_data \<Rightarrow> anndata" where
  "set_layer_data adata layer d = adata\<lparr>layers := (layers adata)(layer \<mapsto> d)\<rparr>"

definition gen_new_layer_key :: "string \<Rightarrow> string \<Rightarrow> string" where
  "gen_new_layer_key layer suffix = layer @ ''_'' @ suffix"

definition MASK_SUFFIX :: string where "MASK_SUFFIX = ''mask''"
definition SCORES_SUFFIX :: string where "SCORES_SUFFIX = ''scores''"
definition BINS_SUFFIX :: string where "BINS_SUFFIX = ''bins''"

section \<open>Masks from staining images (\<open>icell.py\<close>, lines 24 to 137)\<close>

text \<open>\<open>_mask_cells_from_stain\<close>: multi-Otsu, then morphological close and open.\<close>

definition inner_mask_cells_from_stain ::
  "('em, 'vi) estimators \<Rightarrow> layer_data \<Rightarrow> nat \<Rightarrow> int \<Rightarrow> int \<Rightarrow> error + bool ndarray" where
  "inner_mask_cells_from_stain est X otsu_classes otsu_index mk =
     (case py_index (threshold_multiotsu est (to_real X) otsu_classes) otsu_index of
        Inl e \<Rightarrow> Inl e
      | Inr t \<Rightarrow> Inr (mclose_mopen est (np_map (\<lambda>v. t \<le> v) (to_real X)) mk))"

text \<open>
  \<open>_mask_nuclei_from_stain\<close>: the background is what lies below the multi-Otsu threshold,
  the foreground what passes the adaptive threshold (skimage unless the image is
  \<open>uint8\<close>, OpenCV otherwise).
\<close>

definition inner_mask_nuclei_from_stain ::
  "('em, 'vi) estimators \<Rightarrow> layer_data \<Rightarrow> nat \<Rightarrow> int \<Rightarrow> int \<Rightarrow> int \<Rightarrow> int \<Rightarrow> error + bool ndarray" where
  "inner_mask_nuclei_from_stain est X otsu_classes otsu_index local_k offset mk =
     (case py_index (threshold_multiotsu est (to_real X) otsu_classes) otsu_index of
        Inl e \<Rightarrow> Inl e
      | Inr t \<Rightarrow>
          (let background_mask = np_map (\<lambda>v. v < t) (to_real X);
               local_mask =
                 (if \<not> is_uint8 X
                  then np_zip (\<lambda>x l. l < x) (to_real X) (threshold_local est (to_real X) local_k offset)
                  else Inr (np_map (\<lambda>v. v \<noteq> 0) (adaptiveThreshold est (to_real X) local_k offset)))
           in case local_mask of
                Inl e \<Rightarrow> Inl e
              | Inr lm \<Rightarrow>
                  (case np_zip (\<lambda>b l. \<not> b \<and> l) background_mask lm of
                     Inl e \<Rightarrow> Inl e
                   | Inr fg \<Rightarrow> Inr (mclose_mopen est fg mk))))"

text \<open>
  The two public functions return nothing and update \<open>adata\<close> in place: the model
  returns the outcome together with the annotated matrix as the call leaves it.
\<close>

definition layer_missing_msg :: "string \<Rightarrow> string" where
  "layer_missing_msg layer =
     ''Layer \"'' @ layer @ ''\" does not exist in AnnData. ''
       @ ''Please import nuclei staining results either manually or ''
       @ ''with the `nuclei_path` argument to `st.io.read_bgi_agg`.''"

definition mask_cells_from_stain ::
  "('em, 'vi) estimators \<Rightarrow> anndata \<Rightarrow> nat \<Rightarrow> int \<Rightarrow> int \<Rightarrow> string \<Rightarrow> string option \<Rightarrow>
     (error + unit) \<times> anndata" where
  "mask_cells_from_stain est adata otsu_classes otsu_index mk layer out_layer =
     (if layer \<notin> dom (layers adata)
      then (Inl (PreprocessingError (layer_missing_msg layer)), adata)
      else case select_layer_data adata layer of
             Inl e \<Rightarrow> (Inl e, adata)
           | Inr X \<Rightarrow>
               (case inner_mask_cells_from_stain est X otsu_classes otsu_index mk of
                  Inl e \<Rightarrow> (Inl e, adata)
                | Inr m \<Rightarrow>
                    (Inr (), set_layer_data adata
                               (or_default out_layer (gen_new_layer_key layer MASK_SUFFIX))
                               (BoolArr m))))"

definition mask_nuclei_from_stain ::
  "('em, 'vi) estimators \<Rightarrow> anndata \<Rightarrow> nat \<Rightarrow> int \<Rightarrow> int \<Rightarrow> int \<Rightarrow> int \<Rightarrow> string \<Rightarrow> string option \<Rightarrow>
     (error + unit) \<times> anndata" where
  "mask_nuclei_from_stain est adata otsu_classes otsu_index local_k offset mk layer out_layer =
     (if layer \<notin> dom (layers adata)
      then (Inl (PreprocessingError (layer_missing_msg layer)), adata)
      else case select_layer_data adata layer of
             Inl e \<Rightarrow> (Inl e, adata)
           | Inr X \<Rightarrow>
               (case inner_mask_nuclei_from_stain est X otsu_classes otsu_index local_k (- offset) mk of
                  Inl e \<Rightarrow> (Inl e, adata)
                | Inr m \<Rightarrow>
                    (Inr (), set_layer_data adata
                               (or_default out_layer (gen_new_layer_key layer MASK_SUFFIX))
                               (BoolArr m))))"

section \<open>Scoring and masking (\<open>icell.py\<close>, lines 254 to 330)\<close>

text \<open>The steps of one run of \<open>score_and_mask_pixels\<close>, in the order they happen.\<close>

datatype event =
    ReadLayer string
  | Score "call list"
  | WriteLayer string layer_data
  | AutoThreshold bool
  | ApplyThreshold real int
  | OrCertain

datatype bins_arg = BinsDefault | BinsFalse | BinsName string

text \<open>Lines 306 to 308: \<open>if certain_layer:\<close> is false for \<open>None\<close> and for the empty string.\<close>

definition read_certain :: "anndata \<Rightarrow> string option \<Rightarrow> (error + bool ndarray option) \<times> event list" where
  "read_certain adata certain_layer =
     (case certain_layer of
        None \<Rightarrow> (Inr None, [])
      | Some c \<Rightarrow>
          (if c = [] then (Inr None, [])
           else case select_layer_data adata c of
                  Inl e \<Rightarrow> (Inl e, [])
                | Inr d \<Rightarrow> (Inr (Some (astype_bool d)), [ReadLayer c])))"

text \<open>Lines 309 to 313: the bins are read only when the layer is there.\<close>

definition read_bins :: "anndata \<Rightarrow> string \<Rightarrow> bins_arg \<Rightarrow> (error + real ndarray option) \<times> event list" where
  "read_bins adata layer bins_layer =
     (case bins_layer of
        BinsFalse \<Rightarrow> (Inr None, [])
      | _ \<Rightarrow>
          (let name = or_default (case bins_layer of BinsName n \<Rightarrow> Some n | _ \<Rightarrow> None)
                                 (gen_new_layer_key layer BINS_SUFFIX)
           in if name \<in> dom (layers adata)
              then (case select_layer_data adata name of
                      Inl e \<Rightarrow> (Inl e, [])
                    | Inr d \<Rightarrow> (Inr (Some (to_real d)), [ReadLayer name]))
              else (Inr None, [])))"

text \<open>
  Lines 320 to 322: \<open>if not threshold:\<close> is true for \<open>None\<close> and for a threshold of zero.
  The flag of the event says whether a threshold was computed.
\<close>

definition choose_threshold ::
  "('em, 'vi) estimators \<Rightarrow> real ndarray \<Rightarrow> string \<Rightarrow> real option \<Rightarrow> error + real" where
  "choose_threshold est scores method threshold =
     (let auto = (if py_in ''bp'' method
                  then py_index (threshold_multiotsu est scores 3) 1
                  else Inr (threshold_otsu est scores))
      in case threshold of
           None \<Rightarrow> auto
         | Some t \<Rightarrow> if t = 0 then auto else Inr t)"

text \<open>Line 325: \<open>mk or (k + 2 if any(m in method for m in ("em", "vi")) else 3)\<close>.\<close>

definition choose_mk :: "int \<Rightarrow> string \<Rightarrow> int option \<Rightarrow> int" where
  "choose_mk k method mk =
     (let dflt = (if py_in ''em'' method \<or> py_in ''vi'' method then k + 2 else 3)
      in case mk of None \<Rightarrow> dflt | Some m \<Rightarrow> if m = 0 then dflt else m)"

text \<open>Lines 326 to 328: threshold, clean, and add the certain pixels.\<close>

definition final_mask ::
  "('em, 'vi) estimators \<Rightarrow> real ndarray \<Rightarrow> int \<Rightarrow> real \<Rightarrow> bool ndarray option \<Rightarrow> error + bool ndarray" where
  "final_mask est scores mk threshold certain_mask =
     (case certain_mask of
        None \<Rightarrow> Inr (apply_threshold est scores mk threshold)
      | Some c \<Rightarrow> np_ior (apply_threshold est scores mk threshold) c)"

definition score_and_mask_tail ::
  "('em, 'vi) estimators \<Rightarrow> anndata \<Rightarrow> string \<Rightarrow> int \<Rightarrow> string \<Rightarrow> real option \<Rightarrow> int option \<Rightarrow>
     bool ndarray option \<Rightarrow> string option \<Rightarrow> string option \<Rightarrow> real ndarray \<Rightarrow> event list \<Rightarrow>
     (error + unit) \<times> anndata \<times> event list" where
  "score_and_mask_tail est adata layer k method threshold mk certain_mask scores_layer mask_layer scores evs =
     (let sl = or_default scores_layer (gen_new_layer_key layer SCORES_SUFFIX);
          adata1 = set_layer_data adata sl (FloatArr scores);
          evs1 = evs @ [WriteLayer sl (FloatArr scores)]
      in case choose_threshold est scores method threshold of
           Inl e \<Rightarrow> (Inl e, adata1, evs1)
         | Inr t \<Rightarrow>
             (let mk1 = choose_mk k method mk;
                  evs2 = evs1 @ [AutoThreshold (threshold = None \<or> threshold = Some 0),
                                 ApplyThreshold t mk1]
              in case final_mask est scores mk1 t certain_mask of
                   Inl e \<Rightarrow> (Inl e, adata1, evs2)
                 | Inr m \<Rightarrow>
                     (let ml = or_default mask_layer (gen_new_layer_key layer MASK_SUFFIX)
                      in (Inr (), set_layer_data adata1 ml (BoolArr m),
                          evs2 @ (if certain_mask = None then [] else [OrCertain])
                               @ [WriteLayer ml (BoolArr m)]))))"

definition score_and_mask_pixels ::
  "('em, 'vi) estimators \<Rightarrow> anndata \<Rightarrow> string \<Rightarrow> int \<Rightarrow> string \<Rightarrow>
     kwargs option \<Rightarrow> kwargs option \<Rightarrow> kwargs option \<Rightarrow> kwargs option \<Rightarrow>
     real option \<Rightarrow> int option \<Rightarrow> bins_arg \<Rightarrow> string option \<Rightarrow> string option \<Rightarrow> string option \<Rightarrow>
     (error + unit) \<times> anndata \<times> event list" where
  "score_and_mask_pixels est adata layer k method0 moran_kwargs em_kwargs vi_kwargs bp_kwargs
       threshold mk bins_layer certain_layer scores_layer mask_layer =
     (case select_layer_data adata layer of
        Inl e \<Rightarrow> (Inl e, adata, [])
      | Inr Xd \<Rightarrow>
          (case read_certain adata certain_layer of
             (Inl e, ec) \<Rightarrow> (Inl e, adata, [ReadLayer layer])
           | (Inr certain_mask, ec) \<Rightarrow>
               (case read_bins adata layer bins_layer of
                  (Inl e, eb) \<Rightarrow> (Inl e, adata, [ReadLayer layer] @ ec)
                | (Inr bins, eb) \<Rightarrow>
                    (let method = lower method0
                     in case score_pixels est (to_real Xd) k method moran_kwargs em_kwargs vi_kwargs
                               bp_kwargs certain_mask bins of
                          (Inl e, calls) \<Rightarrow> (Inl e, adata, [ReadLayer layer] @ ec @ eb @ [Score calls])
                        | (Inr scores, calls) \<Rightarrow>
                            score_and_mask_tail est adata layer k method threshold mk certain_mask
                              scores_layer mask_layer scores
                              ([ReadLayer layer] @ ec @ eb @ [Score calls])))))"

section \<open>Python objects with identity\<close>

text \<open>
  \<open>AnnData\<close> objects are passed by reference and updated in place. A heap maps every
  reference to the object it denotes; a function that takes \<open>adata\<close> takes a reference
  and returns the heap as it leaves it.
\<close>

type_synonym ref = nat
type_synonym heap = "ref \<Rightarrow> anndata"

text \<open>
  A string object is either the interned one for its text (what a string literal in
  the program text denotes in CPython, for identifier-like literals) or an object built
  at run time (by concatenation, \<open>str.join\<close>, decoding, parsing of a file or of the
  command line). The operator \<open>is\<close> compares objects, \<open>==\<close> compares texts.
\<close>

datatype pystr = Interned string | Built string

fun text_of :: "pystr \<Rightarrow> string" where
  "text_of (Interned s) = s"
| "text_of (Built s) = s"

definition is_literal :: "pystr \<Rightarrow> string \<Rightarrow> bool" where
  "is_literal s lit = (s = Interned lit)"

section \<open>Data-frame columns\<close>

text \<open>\<open>str(i)\<close> for an integer: the decimal numeral.\<close>

definition digit_char :: "nat \<Rightarrow> char" where
  "digit_char d = ''0123456789'' ! (d mod 10)"

fun str_nat :: "nat \<Rightarrow> string" where
  "str_nat n = (if n < 10 then [digit_char n] else str_nat (n div 10) @ [digit_char n])"

declare str_nat.simps [simp del]

definition str_int :: "int \<Rightarrow> string" where
  "str_int i = (if i < 0 then CHR ''-'' # str_nat (nat (- i)) else str_nat (nat i))"

text \<open>
  \<open>adata.obs[key]\<close> raises \<open>KeyError\<close> for a missing column. Assigning a sequence to
  \<open>adata.obs[key]\<close> needs one entry per observation (pandas raises \<open>ValueError\<close>
  otherwise); a numpy integer array gives a numeric column, a list of Python strings a
  column of dtype \<open>object\<close>. \<open>.astype("category")\<close> keeps the entries and makes the
  column categorical.
\<close>

definition obs_get :: "anndata \<Rightarrow> string \<Rightarrow> error + column" where
  "obs_get adata key = (case obs adata key of None \<Rightarrow> Inl (KeyError key) | Some c \<Rightarrow> Inr c)"

definition obs_assign :: "anndata \<Rightarrow> string \<Rightarrow> dtype \<Rightarrow> pyval list \<Rightarrow> error + anndata" where
  "obs_assign adata key dt vs =
     (if length vs \<noteq> length (obs_names adata)
      then Inl (ValueError ''Length of values does not match length of index'')
      else Inr (adata\<lparr>obs := (obs adata)(key \<mapsto> \<lparr>dtype = dt, cells = vs\<rparr>)\<rparr>))"

definition astype_category :: "column \<Rightarrow> column" where
  "astype_category c = c\<lparr>dtype := Category\<rparr>"

section \<open>Graph-convolutional clustering (\<open>find_clusters.py\<close>, lines 18 to 174)\<close>

type_synonym image = "int list list list"

text \<open>The arguments of one call of \<open>calculate_adj_matrix\<close>; \<open>None\<close> is an argument left out.\<close>

record adj_args =
  arg_x :: "pyval list"
  arg_y :: "pyval list"
  arg_x_pixel :: "pyval list option"
  arg_y_pixel :: "pyval list option"
  arg_image :: "image option option"
  arg_beta :: "int option"
  arg_alpha :: "int option"
  arg_histology :: bool

text \<open>
  The helpers of \<open>spagcn_utils\<close> (adjacency, the two searches, the model, refinement) and
  the library calls (\<open>cv2.imread\<close>, the pandas pivot with \<open>np.dstack\<close>, \<open>int\<close> and \<open>str\<close> on
  strings and floats, the double-precision arithmetic of line 86) are fields of a
  record. The searches and the training receive \<open>adata\<close> itself, so they return it as
  they leave it. \<open>'l\<close>, \<open>'r\<close> and \<open>'clf\<close> are the types of the searched parameter, the
  searched resolution and the trained model.
\<close>

record ('l, 'r, 'clf) spagcn_utils =
  calculate_adj_matrix :: "adj_args \<Rightarrow> matrix"
  imread :: "string \<Rightarrow> image option"
  pivot_dstack :: "pyval list \<Rightarrow> pyval list \<Rightarrow> int list \<Rightarrow> error + image"
  int_of_str :: "string \<Rightarrow> int option"
  repr_float :: "real \<Rightarrow> string"
  float_scale :: "real \<Rightarrow> real \<Rightarrow> real"
  search_l :: "real \<Rightarrow> matrix \<Rightarrow> real \<Rightarrow> real \<Rightarrow> real \<Rightarrow> nat \<Rightarrow> 'l"
  search_res :: "anndata \<Rightarrow> matrix \<Rightarrow> 'l \<Rightarrow> int \<Rightarrow> real \<Rightarrow> real \<Rightarrow> real \<Rightarrow> real \<Rightarrow> nat
                   \<Rightarrow> int \<times> int \<times> int \<Rightarrow> 'r \<times> anndata"
  train :: "anndata \<Rightarrow> matrix \<Rightarrow> 'l \<Rightarrow> bool \<Rightarrow> string \<Rightarrow> 'r \<Rightarrow> real \<Rightarrow> real \<Rightarrow> nat
              \<Rightarrow> int \<times> int \<times> int \<Rightarrow> 'clf \<times> anndata"
  predict :: "'clf \<Rightarrow> int list"
  refine :: "string list \<Rightarrow> pyval list \<Rightarrow> matrix \<Rightarrow> string \<Rightarrow> pyval list"

datatype sp_event =
    CalcAdj adj_args
  | SetUns string
  | SearchL real real real nat
  | SearchRes real real real real nat
  | Train nat
  | Predict
  | SetObs string dtype
  | Refine

text \<open>\<open>int(i)\<close>: truncation towards zero for a float, parsing for a string.\<close>

definition trunc :: "real \<Rightarrow> int" where
  "trunc r = (if 0 \<le> r then \<lfloor>r\<rfloor> else \<lceil>r\<rceil>)"

definition py_int :: "('l, 'r, 'clf) spagcn_utils \<Rightarrow> pyval \<Rightarrow> error + int" where
  "py_int ext v =
     (case v of
        PInt i \<Rightarrow> Inr i
      | PFloat r \<Rightarrow> Inr (trunc r)
      | PStr s \<Rightarrow> (case int_of_str ext s of None \<Rightarrow> Inl (ValueError ''invalid literal for int()'') | Some i \<Rightarrow> Inr i))"

text \<open>A list comprehension whose body may raise: the first failure ends it.\<close>

fun map_err :: "('a \<Rightarrow> error + 'b) \<Rightarrow> 'a list \<Rightarrow> error + 'b list" where
  "map_err f [] = Inr []"
| "map_err f (x # xs) =
     (case f x of
        Inl e \<Rightarrow> Inl e
      | Inr y \<Rightarrow> (case map_err f xs of Inl e \<Rightarrow> Inl e | Inr ys \<Rightarrow> Inr (y # ys)))"

text \<open>Lines 58 to 66: a coordinate from column \<open>j\<close> of \<open>adata.obsm["X_spatial"]\<close> or from \<open>adata.obs\<close>.\<close>

definition coord_array :: "anndata \<Rightarrow> string option \<Rightarrow> int \<Rightarrow> error + pyval list" where
  "coord_array adata key j =
     (case key of
        None \<Rightarrow>
          (case obsm adata ''X_spatial'' of
             None \<Rightarrow> Inl (KeyError ''X_spatial'')
           | Some rows \<Rightarrow> map_err (\<lambda>row. case py_index row j of Inl e \<Rightarrow> Inl e | Inr v \<Rightarrow> Inr (PFloat v)) rows)
      | Some k \<Rightarrow> (case obs_get adata k of Inl e \<Rightarrow> Inl e | Inr c \<Rightarrow> Inr (cells c)))"

text \<open>Lines 68 to 76: the pixel coordinates.\<close>

definition pixel_array ::
  "('l, 'r, 'clf) spagcn_utils \<Rightarrow> anndata \<Rightarrow> string option \<Rightarrow> pyval list \<Rightarrow> error + pyval list" where
  "pixel_array ext adata key arr =
     (case key of
        None \<Rightarrow> (case map_err (py_int ext) arr of Inl e \<Rightarrow> Inl e | Inr is \<Rightarrow> Inr (map PInt is))
      | Some k \<Rightarrow> (case obs_get adata k of Inl e \<Rightarrow> Inl e | Inr c \<Rightarrow> Inr (cells c)))"

text \<open>\<open>str(i)\<close> for an entry of a column.\<close>

definition py_str :: "('l, 'r, 'clf) spagcn_utils \<Rightarrow> pyval \<Rightarrow> string" where
  "py_str ext v = (case v of PInt i \<Rightarrow> str_int i | PFloat r \<Rightarrow> repr_float ext r | PStr s \<Rightarrow> s)"

text \<open>
  Line 86: \<open>[int(x / max(total_umi) * 254 + 1) for x in total_umi]\<close>. Nothing is evaluated
  for an empty list; strings do not divide; a maximum of zero divides by zero. The
  expression \<open>x / m * 254 + 1\<close> is evaluated in double precision, with its rounding: it
  is the field \<open>float_scale\<close> of the record, applied to \<open>x\<close> and \<open>m\<close>, and \<open>int\<close> truncates
  the result.
\<close>

definition num_of :: "pyval \<Rightarrow> error + real" where
  "num_of v =
     (case v of
        PInt i \<Rightarrow> Inr (real_of_int i)
      | PFloat r \<Rightarrow> Inr r
      | PStr s \<Rightarrow> Inl (TypeError ''unsupported operand type(s)''))"

definition scale_umi :: "('l, 'r, 'clf) spagcn_utils \<Rightarrow> pyval list \<Rightarrow> error + int list" where
  "scale_umi ext vs =
     (case map_err num_of vs of
        Inl e \<Rightarrow> Inl e
      | Inr [] \<Rightarrow> Inr []
      | Inr (x # xs) \<Rightarrow>
          (let m = foldl max x xs
           in if m = 0 then Inl ZeroDivisionError
              else Inr (map (\<lambda>v. trunc (float_scale ext v m)) (x # xs))))"

text \<open>
  Lines 81 to 111: the adjacency matrix, from the coordinates alone, from the UMI
  counts drawn as a grey-scale image, or from the histology image. The result is paired
  with the arguments \<open>calculate_adj_matrix\<close> was called with.
\<close>

definition spagcn_adj ::
  "('l, 'r, 'clf) spagcn_utils \<Rightarrow> anndata \<Rightarrow> pyval list \<Rightarrow> pyval list \<Rightarrow> pyval list \<Rightarrow> pyval list \<Rightarrow>
     string option \<Rightarrow> string option \<Rightarrow> int \<Rightarrow> int \<Rightarrow> error + matrix \<times> adj_args" where
  "spagcn_adj ext adata x_array y_array x_pixel y_pixel his_img_path total_umi s b =
     (case his_img_path of
        None \<Rightarrow>
          (case total_umi of
             None \<Rightarrow>
               (let a = \<lparr>arg_x = x_array, arg_y = y_array, arg_x_pixel = None, arg_y_pixel = None,
                         arg_image = None, arg_beta = None, arg_alpha = None, arg_histology = False\<rparr>
                in Inr (calculate_adj_matrix ext a, a))
           | Some key \<Rightarrow>
               (case obs_get adata key of
                  Inl e \<Rightarrow> Inl e
                | Inr c \<Rightarrow>
                    (case scale_umi ext (cells c) of
                       Inl e \<Rightarrow> Inl e
                     | Inr umi \<Rightarrow>
                         (case pivot_dstack ext x_pixel y_pixel umi of
                            Inl e \<Rightarrow> Inl e
                          | Inr umi_gs_img \<Rightarrow>
                              (let a = \<lparr>arg_x = x_array, arg_y = y_array,
                                        arg_x_pixel = Some x_pixel, arg_y_pixel = Some y_pixel,
                                        arg_image = Some (Some umi_gs_img),
                                        arg_beta = Some b, arg_alpha = Some s, arg_histology = True\<rparr>
                               in Inr (calculate_adj_matrix ext a, a))))))
      | Some path \<Rightarrow>
          (let a = \<lparr>arg_x = x_array, arg_y = y_array,
                    arg_x_pixel = Some x_pixel, arg_y_pixel = Some y_pixel,
                    arg_image = Some (imread ext path),
                    arg_beta = Some b, arg_alpha = Some s, arg_histology = True\<rparr>
           in Inr (calculate_adj_matrix ext a, a)))"

text \<open>
  Lines 160 to 170: the optional refinement. The refined labels are assigned and the
  column is then made categorical.
\<close>

definition spagcn_refine ::
  "('l, 'r, 'clf) spagcn_utils \<Rightarrow> anndata \<Rightarrow> pyval list \<Rightarrow> pyval list \<Rightarrow> string option \<Rightarrow>
     (error + anndata) \<times> sp_event list" where
  "spagcn_refine ext adata x_array y_array refine_shape =
     (case refine_shape of
        None \<Rightarrow> (Inr adata, [])
      | Some shp \<Rightarrow>
          (let a = \<lparr>arg_x = x_array, arg_y = y_array, arg_x_pixel = None, arg_y_pixel = None,
                    arg_image = None, arg_beta = None, arg_alpha = None, arg_histology = False\<rparr>;
               adj_2d = calculate_adj_matrix ext a
           in case obs_get adata ''spagcn_pred'' of
                Inl e \<Rightarrow> (Inl e, [CalcAdj a])
              | Inr pred \<Rightarrow>
                  (let refined_pred = refine ext (obs_names adata) (cells pred) adj_2d shp
                   in case obs_assign adata ''spagcn_pred_refined'' Object refined_pred of
                        Inl e \<Rightarrow> (Inl e, [CalcAdj a, Refine])
                      | Inr adata1 \<Rightarrow>
                          (Inr (adata1\<lparr>obs := (obs adata1)(''spagcn_pred_refined'' \<mapsto>
                                  astype_category \<lparr>dtype = Object, cells = refined_pred\<rparr>)\<rparr>),
                           [CalcAdj a, Refine, SetObs ''spagcn_pred_refined'' Object,
                            SetObs ''spagcn_pred_refined'' Category]))))"

text \<open>
  Lines 156 to 158: the predicted labels are written three times to the same column, as
  the integer array, as its categorical version, and as the list of their strings.
\<close>

definition store_pred ::
  "('l, 'r, 'clf) spagcn_utils \<Rightarrow> anndata \<Rightarrow> int list \<Rightarrow> (error + unit) \<times> anndata \<times> sp_event list" where
  "store_pred ext adata y_pred =
     (case obs_assign adata ''spagcn_pred'' Numeric (map PInt y_pred) of
        Inl e \<Rightarrow> (Inl e, adata, [])
      | Inr adata1 \<Rightarrow>
          (let col = astype_category \<lparr>dtype = Numeric, cells = map PInt y_pred\<rparr>;
               adata2 = adata1\<lparr>obs := (obs adata1)(''spagcn_pred'' \<mapsto> col)\<rparr>;
               evs = [SetObs ''spagcn_pred'' Numeric, SetObs ''spagcn_pred'' Category]
           in case obs_assign adata2 ''spagcn_pred'' Object (map (\<lambda>v. PStr (py_str ext v)) (cells col)) of
                Inl e \<Rightarrow> (Inl e, adata2, evs)
              | Inr adata3 \<Rightarrow> (Inr (), adata3, evs @ [SetObs ''spagcn_pred'' Object])))"

text \<open>
  Lines 113 to 174: store the adjacency, search \<open>l\<close> and the resolution, train, predict,
  write the labels, refine, return. The constants are the source's, as fractions in
  lowest terms: \<open>0.01 = 1/100\<close>, \<open>0.7 = 7/10\<close>, \<open>0.1 = 1/10\<close>, \<open>5e-3 = 1/200\<close> and
  \<open>0.05 = 1/20\<close>.
\<close>

definition spagcn_fit ::
  "('l, 'r, 'clf) spagcn_utils \<Rightarrow> heap \<Rightarrow> ref \<Rightarrow> matrix \<Rightarrow> pyval list \<Rightarrow> pyval list \<Rightarrow> int \<Rightarrow> real \<Rightarrow>
     string option \<Rightarrow> int \<Rightarrow> bool \<Rightarrow> sp_event list \<Rightarrow> (error + ref option) \<times> heap \<times> sp_event list" where
  "spagcn_fit ext h r adj x_array y_array n_clusters p refine_shape seed copy evs0 =
     (let adata1 = (h r)\<lparr>uns := (uns (h r))(''adj_spagcn'' \<mapsto> UMatrix adj)\<rparr>;
          l = search_l ext p adj (1 / 100) 1000 (1 / 100) 100;
          seeds = (seed, seed, seed);
          (res, adata2) = search_res ext adata1 adj l n_clusters (7 / 10) (1 / 10) (1 / 200) (1 / 20) 20 seeds;
          (clf, adata3) = train ext adata2 adj l True ''louvain'' res (1 / 200) (1 / 20) 200 seeds;
          y_pred = predict ext clf;
          evs1 = evs0 @ [SetUns ''adj_spagcn'', SearchL (1 / 100) 1000 (1 / 100) 100,
                         SearchRes (7 / 10) (1 / 10) (1 / 200) (1 / 20) 20, Train 200, Predict]
      in case store_pred ext adata3 y_pred of
           (Inl e, adata4, evp) \<Rightarrow> (Inl e, h(r := adata4), evs1 @ evp)
         | (Inr u, adata4, evp) \<Rightarrow>
             (case spagcn_refine ext adata4 x_array y_array refine_shape of
                (Inl e, evr) \<Rightarrow> (Inl e, h(r := adata4), evs1 @ evp @ evr)
              | (Inr adata5, evr) \<Rightarrow>
                  (Inr (if copy then Some r else None), h(r := adata5), evs1 @ evp @ evr)))"

text \<open>
  \<open>spagcn_pyg\<close>. The arguments \<open>s\<close> and \<open>b\<close> are received as \<open>s0\<close> and \<open>b0\<close>; lines 78 and 79
  assign \<open>s = 1\<close> and \<open>b = 49\<close>.
\<close>

definition spagcn_pyg ::
  "('l, 'r, 'clf) spagcn_utils \<Rightarrow> heap \<Rightarrow> ref \<Rightarrow> int \<Rightarrow> real \<Rightarrow> int \<Rightarrow> int \<Rightarrow> string option \<Rightarrow>
     string option \<Rightarrow> string option \<Rightarrow> string option \<Rightarrow> string option \<Rightarrow> string option \<Rightarrow> string option \<Rightarrow>
     int \<Rightarrow> bool \<Rightarrow> (error + ref option) \<times> heap \<times> sp_event list" where
  "spagcn_pyg ext h r n_clusters p s0 b0 refine_shape his_img_path total_umi x_pixel y_pixel
       x_array y_array seed copy =
     (case coord_array (h r) x_array 0 of
        Inl e \<Rightarrow> (Inl e, h, [])
      | Inr xa \<Rightarrow>
          (case coord_array (h r) y_array 1 of
             Inl e \<Rightarrow> (Inl e, h, [])
           | Inr ya \<Rightarrow>
               (case pixel_array ext (h r) x_pixel xa of
                  Inl e \<Rightarrow> (Inl e, h, [])
                | Inr xp \<Rightarrow>
                    (case pixel_array ext (h r) y_pixel ya of
                       Inl e \<Rightarrow> (Inl e, h, [])
                     | Inr yp \<Rightarrow>
                         (let s = 1; b = 49
                          in case spagcn_adj ext (h r) xa ya xp yp his_img_path total_umi s b of
                               Inl e \<Rightarrow> (Inl e, h, [])
                             | Inr (adj, a) \<Rightarrow>
                                 spagcn_fit ext h r adj xa ya n_clusters p refine_shape seed copy
                                   [CalcAdj a])))))"

section \<open>Spatially constrained clustering (\<open>find_clusters.py\<close>, lines 177 to 263)\<close>

text \<open>
  The filters of \<open>spateo.preprocessing.filter\<close>, the helpers of \<open>.utils\<close> and the dynamo
  routines, each acting on \<open>adata\<close> in place.
\<close>

record scc_utils =
  filter_cells :: "anndata \<Rightarrow> int \<Rightarrow> anndata"
  filter_genes :: "anndata \<Rightarrow> int \<Rightarrow> anndata"
  normalize_cell_expr_by_size_factors :: "anndata \<Rightarrow> anndata"
  log1p :: "anndata \<Rightarrow> anndata"
  compute_pca_components :: "matrix \<Rightarrow> matrix \<times> int"
  harmony_debatch :: "anndata \<Rightarrow> string option \<Rightarrow> string \<Rightarrow> string \<Rightarrow> int \<Rightarrow> anndata"
  spatial_adj_dyn :: "anndata \<Rightarrow> string \<Rightarrow> string \<Rightarrow> int \<Rightarrow> int \<Rightarrow> matrix"
  leiden :: "anndata \<Rightarrow> matrix \<Rightarrow> real option \<Rightarrow> string option \<Rightarrow> anndata"
  louvain :: "anndata \<Rightarrow> matrix \<Rightarrow> real option \<Rightarrow> string option \<Rightarrow> anndata"

datatype scc_event = FilterCells | FilterGenes | Normalize | Log1p | PCA | Harmony | SpatialAdj | Leiden | Louvain

text \<open>The slice \<open>row[:n]\<close>.\<close>

definition py_take :: "int \<Rightarrow> 'a list \<Rightarrow> 'a list" where
  "py_take n xs = (if 0 \<le> n then take (nat n) xs else take (length xs - nat (- n)) xs)"

text \<open>Lines 223 to 227: filtering, normalisation and the logarithm, all on \<open>adata\<close> itself.\<close>

definition scc_preprocess :: "scc_utils \<Rightarrow> anndata \<Rightarrow> int \<Rightarrow> int \<Rightarrow> anndata" where
  "scc_preprocess ext adata min_genes min_cells =
     (let a1 = filter_cells ext adata min_genes;
          a2 = filter_genes ext a1 min_cells;
          a3 = a2\<lparr>uns := (uns a2)(''pp'' \<mapsto> UDict [])\<rparr>;
          a4 = normalize_cell_expr_by_size_factors ext a3
      in log1p ext a4)"

text \<open>
  Lines 255 to 261: the two branches compare the argument with the literals by \<open>is\<close>.
\<close>

definition scc_cluster ::
  "scc_utils \<Rightarrow> anndata \<Rightarrow> matrix \<Rightarrow> pystr \<Rightarrow> real option \<Rightarrow> string option \<Rightarrow> anndata \<times> scc_event list" where
  "scc_cluster ext adata adj cluster_method resolution key_added =
     (if is_literal cluster_method ''leiden'' then (leiden ext adata adj resolution key_added, [Leiden])
      else if is_literal cluster_method ''louvain'' then (louvain ext adata adj resolution key_added, [Louvain])
      else (adata, []))"

text \<open>
  \<open>scc\<close>. The name \<open>pcs\<close> is bound only when \<open>n_pca_components\<close> is \<open>None\<close> (line 230) and is
  read on line 233.
\<close>

definition scc ::
  "scc_utils \<Rightarrow> heap \<Rightarrow> ref \<Rightarrow> int \<Rightarrow> int \<Rightarrow> string \<Rightarrow> string option \<Rightarrow> int option \<Rightarrow> int \<Rightarrow> int \<Rightarrow>
     pystr \<Rightarrow> real option \<Rightarrow> bool \<Rightarrow> string option \<Rightarrow> int \<Rightarrow> bool \<Rightarrow>
     (error + ref option) \<times> heap \<times> scc_event list" where
  "scc ext h r min_genes min_cells spatial_key key_added n_pca_components e_neigh s_neigh
       cluster_method resolution debatch batch_key max_iter_harmony copy =
     (let a5 = scc_preprocess ext (h r) min_genes min_cells;
          evs = [FilterCells, FilterGenes, Normalize, Log1p]
      in case n_pca_components of
           Some n \<Rightarrow> (Inl (UnboundLocalError ''pcs''), h(r := a5), evs)
         | None \<Rightarrow>
             (let (pcs, n) = compute_pca_components ext (Xmat a5);
                  a6 = a5\<lparr>obsm := (obsm a5)(''X_pca'' \<mapsto> map (py_take n) pcs)\<rparr>;
                  a7 = (if debatch
                        then harmony_debatch ext a6 batch_key ''X_pca'' ''X_pca_harmony'' max_iter_harmony
                        else a6);
                  pca_key = (if debatch then ''X_pca_harmony'' else ''X_pca'');
                  adj = spatial_adj_dyn ext a7 spatial_key pca_key e_neigh s_neigh;
                  (a8, evc) = scc_cluster ext a7 adj cluster_method resolution key_added
              in (Inr (if copy then Some r else None), h(r := a8),
                  evs @ [PCA] @ (if debatch then [Harmony] else []) @ [SpatialAdj] @ evc)))"

section \<open>A small concrete instance\<close>

text \<open>
  Simple stand-ins for the numeric kernels and a one-by-two image, on which the
  theorems below are instantiated.
\<close>

definition toy_estimators :: "(unit, unit) estimators" where
  "toy_estimators =
     \<lparr>conv2d = (\<lambda>X k m b. X),
      scale_to_01 = (\<lambda>X. X),
      run_moran = (\<lambda>X m kw. X),
      true_divide = (\<lambda>X d. np_map (\<lambda>v. v / d) X),
      run_em = (\<lambda>X b kw. ()),
      em_conditionals = (\<lambda>X er b. (np_map (\<lambda>v. 1 - v) X, X)),
      em_confidence = (\<lambda>X er b. X),
      run_vi = (\<lambda>X b kw. ()),
      vi_conditionals = (\<lambda>X vr b. (np_map (\<lambda>v. 1 - v) X, X)),
      run_bp = (\<lambda>bg cl kw. cl),
      threshold_multiotsu = (\<lambda>X n. [1 / 4, 1 / 2]),
      threshold_otsu = (\<lambda>X. 1 / 2),
      threshold_local = (\<lambda>X bs off. np_map (\<lambda>v. 1 / 2) X),
      adaptiveThreshold = (\<lambda>X bs off. X),
      mclose_mopen = (\<lambda>m k. m),
      apply_threshold = (\<lambda>X mk t. np_map (\<lambda>v. t \<le> v) X)\<rparr>"

definition toy_adata :: anndata where
  "toy_adata =
     \<lparr>obs_names = [''spot''], Xmat = [[1 / 4, 3 / 4]],
      obs = Map.empty, obsm = Map.empty, uns = Map.empty,
      layers = [''stain'' \<mapsto> FloatArr \<lparr>shape = [1, 2], vals = [0, 1]\<rparr>,
                ''counts'' \<mapsto> FloatArr \<lparr>shape = [1, 2], vals = [1 / 4, 3 / 4]\<rparr>,
                ''nuclei'' \<mapsto> BoolArr \<lparr>shape = [1, 2], vals = [True, False]\<rparr>]\<rparr>"

definition toy_spots :: anndata where
  "toy_spots = toy_adata\<lparr>obsm := [''X_spatial'' \<mapsto> [[3 / 2, 5 / 2]]]\<rparr>"

definition toy_heap :: heap where
  "toy_heap = (\<lambda>r. toy_spots)"

definition toy_spagcn :: "(real, real, int list) spagcn_utils" where
  "toy_spagcn =
     \<lparr>calculate_adj_matrix = (\<lambda>a. [[0]]),
      imread = (\<lambda>path. None),
      pivot_dstack = (\<lambda>xp yp umi. Inr []),
      int_of_str = (\<lambda>s. None),
      repr_float = (\<lambda>x. ''0.0''),
      float_scale = (\<lambda>x m. x / m * 254 + 1),
      search_l = (\<lambda>p adj start end tol max_run. 1),
      search_res = (\<lambda>adata adj l n start step tol lr max_epochs seeds. (start, adata)),
      train = (\<lambda>adata adj l init_spa init res tol lr max_epochs seeds. ([7], adata)),
      predict = (\<lambda>clf. clf),
      refine = (\<lambda>ids pred dis shp. pred)\<rparr>"

definition toy_labels :: "string \<Rightarrow> anndata \<Rightarrow> string option \<Rightarrow> anndata" where
  "toy_labels l adata key =
     (case key of
        None \<Rightarrow> adata
      | Some k \<Rightarrow> adata\<lparr>obs := (obs adata)(k \<mapsto> \<lparr>dtype = Category, cells = [PStr l]\<rparr>)\<rparr>)"

definition toy_scc :: scc_utils where
  "toy_scc =
     \<lparr>filter_cells = (\<lambda>adata n. adata),
      filter_genes = (\<lambda>adata n. adata),
      normalize_cell_expr_by_size_factors = (\<lambda>adata. adata),
      log1p = (\<lambda>adata. adata),
      compute_pca_components = (\<lambda>X. (X, 1)),
      harmony_debatch = (\<lambda>adata batch_key basis adjusted max_iter. adata),
      spatial_adj_dyn = (\<lambda>adata spatial_key pca_key e_neigh s_neigh. [[0]]),
      leiden = (\<lambda>adata adj res key. toy_labels ''0'' adata key),
      louvain = (\<lambda>adata adj res key. toy_labels ''1'' adata key)\<rparr>"

section \<open>Basic facts\<close>



lemma np_zip_not_pp: "np_zip f a b \<noteq> Inl (PreprocessingError msg)"
  by (simp add: np_zip_def)

lemma py_index_not_pp: "py_index xs i = Inl e \<Longrightarrow> e = IndexError"
  by (simp add: py_index_def Let_def split: if_splits)


section \<open>Properties of the pixel-scoring dispatcher\<close>

lemma score_em_vi_not_pp:
  "score_em_vi est res k method ekw vkw bkw certain bins \<noteq> (Inl (PreprocessingError msg), lg)"
  by (auto simp: score_em_vi_def Let_def mask_assign_def clip_add_def np_zip_def
           split: prod.splits sum.splits option.splits fitted.splits if_splits)

text \<open>
  The three guards at the top of \<open>_score_pixels\<close> are the only source of
  \<open>PreprocessingError\<close>, and they fire before any estimator is called.
\<close>

lemma score_pixels_preprocessing_error_iff:
  "(\<exists>msg. score_pixels est X k method mkw ekw vkw bkw certain bins = (Inl (PreprocessingError msg), []))
     \<longleftrightarrow> (lower method \<notin> set valid_methods
          \<or> (\<exists>c. certain = Some c \<and> shape X \<noteq> shape c)
          \<or> (\<exists>b. bins = Some b \<and> shape X \<noteq> shape b))"
  by (auto simp: score_pixels_def Let_def np_max_def
           split: prod.splits sum.splits option.splits list.splits if_splits)

lemma score_pixels_preprocessing_error_early:
  "score_pixels est X k method mkw ekw vkw bkw certain bins = (Inl (PreprocessingError msg), calls)
     \<Longrightarrow> calls = []"
  by (auto simp: score_pixels_def Let_def np_max_def score_em_vi_not_pp
           split: prod.splits sum.splits option.splits list.splits if_splits)

text \<open>
  The estimators called for each valid method, in order, when no certain mask is given.
  All but \<open>vi+gauss\<close> return scores.
\<close>

lemma score_pixels_dispatch:
  "lower method = ''gauss'' \<Longrightarrow>
     snd (score_pixels est X k method mkw ekw vkw bkw None None) = [Conv2d Gauss, ScaleTo01]"
  "lower method = ''moran'' \<Longrightarrow>
     snd (score_pixels est X k method mkw ekw vkw bkw None None) = [Conv2d Gauss, RunMoran]"
  "lower method = ''em'' \<Longrightarrow>
     snd (score_pixels est X k method mkw ekw vkw bkw None None) = [Conv2d Circle, RunEM, EMConfidence]"
  "lower method = ''em+gauss'' \<Longrightarrow>
     snd (score_pixels est X k method mkw ekw vkw bkw None None)
       = [Conv2d Circle, RunEM, EMConfidence, Conv2d Gauss]"
  "lower method = ''em+bp'' \<Longrightarrow>
     snd (score_pixels est X k method mkw ekw vkw bkw None None)
       = [Conv2d Circle, RunEM, EMConditionals, RunBP]"
  "lower method = ''vi+bp'' \<Longrightarrow>
     snd (score_pixels est X k method mkw ekw vkw bkw None None)
       = [Conv2d Circle, RunVI, VIConditionals, RunBP]"
  "lower method = ''vi+gauss'' \<Longrightarrow>
     score_pixels est X k method mkw ekw vkw bkw None None
       = (Inl (UnboundLocalError ''em_results''), [Conv2d Circle, RunVI])"
  by (simp_all add: score_pixels_def score_em_vi_def valid_methods_def Let_def
        split: sum.splits prod.splits)

text \<open>
  Claim C1. \<open>_score_pixels\<close> raises \<open>PreprocessingError\<close> exactly for an unknown method or
  a \<open>certain_mask\<close> or \<open>bins\<close> of another shape than \<open>X\<close>, and dispatches every valid method
  to its estimators. The first half holds (the two lemmas above). The second half
  fails for the valid method \<open>VI+gauss\<close>: after the convolution and the variational
  inference the code reads \<open>em_results\<close>, which only the EM branch binds, so the call
  ends in \<open>UnboundLocalError\<close> and neither the confidences nor the Gaussian blur are
  computed, whatever the image and the estimators are.
\<close>

theorem score_pixels_vi_gauss_unbound:
  "score_pixels est X k ''VI+gauss'' mkw ekw vkw bkw None None =
     (Inl (UnboundLocalError ''em_results''), [Conv2d Circle, RunVI])"
  by (simp add: score_pixels_def score_em_vi_def lower_def lower_char_def valid_methods_def Let_def)

section \<open>A successful run of \<open>score_and_mask_pixels\<close>, step by step\<close>

lemma read_certain_absent:
  "certain_layer = None \<or> certain_layer = Some [] \<Longrightarrow> read_certain adata certain_layer = (Inr None, [])"
  by (auto simp: read_certain_def)


lemma read_certain_none_iff:
  "read_certain adata certain_layer = (Inr cm, ec) \<Longrightarrow>
     (cm = None) = (certain_layer = None \<or> certain_layer = Some [])"
  by (auto simp: read_certain_def select_layer_data_def split: option.splits if_splits)

lemma score_and_mask_tail_success:
  assumes "score_and_mask_tail est adata layer k method threshold mk cm scores_layer mask_layer scores evs
             = (Inr (), adata', evs')"
  shows "\<exists>t m. choose_threshold est scores method threshold = Inr t
           \<and> final_mask est scores (choose_mk k method mk) t cm = Inr m
           \<and> adata' = adata\<lparr>layers := (layers adata)
                 (or_default scores_layer (layer @ ''_scores'') \<mapsto> FloatArr scores,
                  or_default mask_layer (layer @ ''_mask'') \<mapsto> BoolArr m)\<rparr>
           \<and> evs' = evs @ [WriteLayer (or_default scores_layer (layer @ ''_scores'')) (FloatArr scores),
                           AutoThreshold (threshold = None \<or> threshold = Some 0),
                           ApplyThreshold t (choose_mk k method mk)]
                        @ (if cm = None then [] else [OrCertain])
                        @ [WriteLayer (or_default mask_layer (layer @ ''_mask'')) (BoolArr m)]"
  using assms
  by (auto simp: score_and_mask_tail_def Let_def set_layer_data_def gen_new_layer_key_def
        SCORES_SUFFIX_def MASK_SUFFIX_def split: sum.splits)

lemma score_and_mask_pixels_success:
  assumes "score_and_mask_pixels est adata layer k method0 mkw ekw vkw bkw threshold mk bins_layer
             certain_layer scores_layer mask_layer = (Inr (), adata', evs)"
  shows "\<exists>Xd cm ec bins eb scores calls.
           layers adata layer = Some Xd
         \<and> read_certain adata certain_layer = (Inr cm, ec)
         \<and> read_bins adata layer bins_layer = (Inr bins, eb)
         \<and> score_pixels est (to_real Xd) k (lower method0) mkw ekw vkw bkw cm bins = (Inr scores, calls)
         \<and> score_and_mask_tail est adata layer k (lower method0) threshold mk cm scores_layer mask_layer
              scores ([ReadLayer layer] @ ec @ eb @ [Score calls]) = (Inr (), adata', evs)"
  using assms
  by (auto simp: score_and_mask_pixels_def Let_def select_layer_data_def
           split: sum.splits option.splits prod.splits)



section \<open>Runs on the concrete instance\<close>

lemmas toy_defs =
  score_and_mask_pixels_def score_and_mask_tail_def score_pixels_def score_em_vi_def
  read_certain_def read_bins_def choose_threshold_def choose_mk_def final_mask_def
  select_layer_data_def set_layer_data_def gen_new_layer_key_def
  SCORES_SUFFIX_def MASK_SUFFIX_def BINS_SUFFIX_def or_default_def or_empty_def
  toy_estimators_def toy_adata_def valid_methods_def lower_def lower_char_def
  to_real_def astype_bool_def np_ior_def np_zip_def np_map_def same_shape_def
  clip_add_def clip01_def py_index_def Let_def

lemma toy_run_gauss_certain:
  "score_and_mask_pixels toy_estimators toy_adata ''counts'' 5 ''gauss'' None None None None
       None None BinsDefault (Some ''nuclei'') None None
     = (Inr (),
        toy_adata\<lparr>layers := (layers toy_adata)
           (''counts_scores'' \<mapsto> FloatArr \<lparr>shape = [1, 2], vals = [1 / 4, 3 / 4]\<rparr>,
            ''counts_mask'' \<mapsto> BoolArr \<lparr>shape = [1, 2], vals = [True, True]\<rparr>)\<rparr>,
        [ReadLayer ''counts'', ReadLayer ''nuclei'', Score [Conv2d Gauss, ScaleTo01],
         WriteLayer ''counts_scores'' (FloatArr \<lparr>shape = [1, 2], vals = [1 / 4, 3 / 4]\<rparr>),
         AutoThreshold True, ApplyThreshold (1 / 2) 3, OrCertain,
         WriteLayer ''counts_mask'' (BoolArr \<lparr>shape = [1, 2], vals = [True, True]\<rparr>)])"
  by (simp add: toy_defs)


lemma toy_run_threshold_zero:
  "score_and_mask_pixels toy_estimators toy_adata ''counts'' 5 ''gauss'' None None None None
       (Some 0) None BinsDefault None None None
     = (Inr (),
        toy_adata\<lparr>layers := (layers toy_adata)
           (''counts_scores'' \<mapsto> FloatArr \<lparr>shape = [1, 2], vals = [1 / 4, 3 / 4]\<rparr>,
            ''counts_mask'' \<mapsto> BoolArr \<lparr>shape = [1, 2], vals = [False, True]\<rparr>)\<rparr>,
        [ReadLayer ''counts'', Score [Conv2d Gauss, ScaleTo01],
         WriteLayer ''counts_scores'' (FloatArr \<lparr>shape = [1, 2], vals = [1 / 4, 3 / 4]\<rparr>),
         AutoThreshold True, ApplyThreshold (1 / 2) 3,
         WriteLayer ''counts_mask'' (BoolArr \<lparr>shape = [1, 2], vals = [False, True]\<rparr>)])"
  by (simp add: toy_defs)

lemma toy_run_threshold_given:
  "score_and_mask_pixels toy_estimators toy_adata ''counts'' 5 ''gauss'' None None None None
       (Some (1 / 5)) None BinsDefault None None None
     = (Inr (),
        toy_adata\<lparr>layers := (layers toy_adata)
           (''counts_scores'' \<mapsto> FloatArr \<lparr>shape = [1, 2], vals = [1 / 4, 3 / 4]\<rparr>,
            ''counts_mask'' \<mapsto> BoolArr \<lparr>shape = [1, 2], vals = [True, True]\<rparr>)\<rparr>,
        [ReadLayer ''counts'', Score [Conv2d Gauss, ScaleTo01],
         WriteLayer ''counts_scores'' (FloatArr \<lparr>shape = [1, 2], vals = [1 / 4, 3 / 4]\<rparr>),
         AutoThreshold False, ApplyThreshold (1 / 5) 3,
         WriteLayer ''counts_mask'' (BoolArr \<lparr>shape = [1, 2], vals = [True, True]\<rparr>)])"
  by (simp add: toy_defs)

lemma toy_run_same_name:
  "score_and_mask_pixels toy_estimators toy_adata ''counts'' 5 ''gauss'' None None None None
       None None BinsDefault None (Some ''s'') (Some ''s'')
     = (Inr (),
        toy_adata\<lparr>layers := (layers toy_adata)
           (''s'' \<mapsto> BoolArr \<lparr>shape = [1, 2], vals = [False, True]\<rparr>)\<rparr>,
        [ReadLayer ''counts'', Score [Conv2d Gauss, ScaleTo01],
         WriteLayer ''s'' (FloatArr \<lparr>shape = [1, 2], vals = [1 / 4, 3 / 4]\<rparr>),
         AutoThreshold True, ApplyThreshold (1 / 2) 3,
         WriteLayer ''s'' (BoolArr \<lparr>shape = [1, 2], vals = [False, True]\<rparr>)])"
  by (simp add: toy_defs)

section \<open>Masks from staining images\<close>

lemma mask_cells_absent:
  "layer \<notin> dom (layers adata) \<Longrightarrow>
     mask_cells_from_stain est adata oc oi mk layer out
       = (Inl (PreprocessingError (layer_missing_msg layer)), adata)"
  by (simp add: mask_cells_from_stain_def)

lemma mask_nuclei_absent:
  "layer \<notin> dom (layers adata) \<Longrightarrow>
     mask_nuclei_from_stain est adata oc oi lk off mk layer out
       = (Inl (PreprocessingError (layer_missing_msg layer)), adata)"
  by (simp add: mask_nuclei_from_stain_def)

lemma mask_cells_present:
  "layers adata layer = Some X \<Longrightarrow>
     mask_cells_from_stain est adata oc oi mk layer out
       = (case inner_mask_cells_from_stain est X oc oi mk of
            Inl e \<Rightarrow> (Inl e, adata)
          | Inr m \<Rightarrow> (Inr (), adata\<lparr>layers := (layers adata)(or_default out (layer @ ''_mask'') \<mapsto> BoolArr m)\<rparr>))"
  by (simp add: mask_cells_from_stain_def select_layer_data_def set_layer_data_def
        gen_new_layer_key_def MASK_SUFFIX_def domIff split: sum.splits)

lemma mask_nuclei_present:
  "layers adata layer = Some X \<Longrightarrow>
     mask_nuclei_from_stain est adata oc oi lk off mk layer out
       = (case inner_mask_nuclei_from_stain est X oc oi lk (- off) mk of
            Inl e \<Rightarrow> (Inl e, adata)
          | Inr m \<Rightarrow> (Inr (), adata\<lparr>layers := (layers adata)(or_default out (layer @ ''_mask'') \<mapsto> BoolArr m)\<rparr>))"
  by (simp add: mask_nuclei_from_stain_def select_layer_data_def set_layer_data_def
        gen_new_layer_key_def MASK_SUFFIX_def domIff split: sum.splits)

lemma inner_mask_cells_not_pp:
  "inner_mask_cells_from_stain est X oc oi mk \<noteq> Inl (PreprocessingError msg)"
  by (auto simp: inner_mask_cells_from_stain_def split: sum.splits dest: py_index_not_pp)

lemma inner_mask_nuclei_not_pp:
  "inner_mask_nuclei_from_stain est X oc oi lk off mk \<noteq> Inl (PreprocessingError msg)"
  by (auto simp: inner_mask_nuclei_from_stain_def np_zip_not_pp Let_def
           split: sum.splits dest: py_index_not_pp)

text \<open>
  Claim C8. \<open>mask_cells_from_stain\<close> and \<open>mask_nuclei_from_stain\<close> raise
  \<open>PreprocessingError\<close> when the staining layer is not in \<open>adata.layers\<close>, and \<open>adata\<close> is
  then left as it was. When the layer is there, neither raises \<open>PreprocessingError\<close>,
  a call that fails for another reason leaves \<open>adata\<close> as it was, and a call that
  returns has stored the boolean mask computed from that layer under \<open>out_layer\<close>,
  which is \<open>{layer}_mask\<close> unless the caller names one; nothing else of \<open>adata\<close> changes.
\<close>

theorem mask_from_stain_layer_check:
  "(layer \<notin> dom (layers adata) \<longrightarrow>
      (\<exists>msg. mask_cells_from_stain est adata oc oi mk layer out = (Inl (PreprocessingError msg), adata))
    \<and> (\<exists>msg. mask_nuclei_from_stain est adata oc oi lk off mk layer out = (Inl (PreprocessingError msg), adata)))
   \<and> (layer \<in> dom (layers adata) \<longrightarrow>
      (\<forall>msg a. mask_cells_from_stain est adata oc oi mk layer out \<noteq> (Inl (PreprocessingError msg), a))
    \<and> (\<forall>msg a. mask_nuclei_from_stain est adata oc oi lk off mk layer out \<noteq> (Inl (PreprocessingError msg), a))
    \<and> (\<forall>e a. mask_cells_from_stain est adata oc oi mk layer out = (Inl e, a) \<longrightarrow> a = adata)
    \<and> (\<forall>e a. mask_nuclei_from_stain est adata oc oi lk off mk layer out = (Inl e, a) \<longrightarrow> a = adata)
    \<and> (\<forall>a. mask_cells_from_stain est adata oc oi mk layer out = (Inr (), a) \<longrightarrow>
          (\<exists>X m. layers adata layer = Some X
             \<and> inner_mask_cells_from_stain est X oc oi mk = Inr m
             \<and> a = adata\<lparr>layers := (layers adata)(or_default out (layer @ ''_mask'') \<mapsto> BoolArr m)\<rparr>))
    \<and> (\<forall>a. mask_nuclei_from_stain est adata oc oi lk off mk layer out = (Inr (), a) \<longrightarrow>
          (\<exists>X m. layers adata layer = Some X
             \<and> inner_mask_nuclei_from_stain est X oc oi lk (- off) mk = Inr m
             \<and> a = adata\<lparr>layers := (layers adata)(or_default out (layer @ ''_mask'') \<mapsto> BoolArr m)\<rparr>)))"
proof (cases "layers adata layer")
  case None
  then have "layer \<notin> dom (layers adata)" by (simp add: domIff)
  then show ?thesis
    by (simp add: mask_cells_absent mask_nuclei_absent)
next
  case (Some X)
  then have "layer \<in> dom (layers adata)" by (simp add: domI)
  moreover have "\<forall>msg a. mask_cells_from_stain est adata oc oi mk layer out \<noteq> (Inl (PreprocessingError msg), a)"
    by (auto simp: mask_cells_present [OF Some] inner_mask_cells_not_pp split: sum.splits)
  moreover have "\<forall>msg a. mask_nuclei_from_stain est adata oc oi lk off mk layer out \<noteq> (Inl (PreprocessingError msg), a)"
    by (auto simp: mask_nuclei_present [OF Some] inner_mask_nuclei_not_pp split: sum.splits)
  moreover have "\<forall>e a. mask_cells_from_stain est adata oc oi mk layer out = (Inl e, a) \<longrightarrow> a = adata"
    by (simp add: mask_cells_present [OF Some] split: sum.splits)
  moreover have "\<forall>e a. mask_nuclei_from_stain est adata oc oi lk off mk layer out = (Inl e, a) \<longrightarrow> a = adata"
    by (simp add: mask_nuclei_present [OF Some] split: sum.splits)
  moreover have "\<forall>a. mask_cells_from_stain est adata oc oi mk layer out = (Inr (), a) \<longrightarrow>
          (\<exists>X m. layers adata layer = Some X
             \<and> inner_mask_cells_from_stain est X oc oi mk = Inr m
             \<and> a = adata\<lparr>layers := (layers adata)(or_default out (layer @ ''_mask'') \<mapsto> BoolArr m)\<rparr>)"
    by (simp add: mask_cells_present [OF Some] Some split: sum.splits)
  moreover have "\<forall>a. mask_nuclei_from_stain est adata oc oi lk off mk layer out = (Inr (), a) \<longrightarrow>
          (\<exists>X m. layers adata layer = Some X
             \<and> inner_mask_nuclei_from_stain est X oc oi lk (- off) mk = Inr m
             \<and> a = adata\<lparr>layers := (layers adata)(or_default out (layer @ ''_mask'') \<mapsto> BoolArr m)\<rparr>)"
    by (simp add: mask_nuclei_present [OF Some] Some split: sum.splits)
  ultimately show ?thesis by blast
qed

theorem mask_from_stain_layer_check_witness:
  "''stain'' \<in> dom (layers toy_adata)
   \<and> ''dapi'' \<notin> dom (layers toy_adata)
   \<and> (\<exists>msg. mask_cells_from_stain toy_estimators toy_adata 3 0 7 ''dapi'' None
              = (Inl (PreprocessingError msg), toy_adata))
   \<and> mask_cells_from_stain toy_estimators toy_adata 3 0 7 ''stain'' None
       = (Inr (), toy_adata\<lparr>layers := (layers toy_adata)
                   (''stain_mask'' \<mapsto> BoolArr \<lparr>shape = [1, 2], vals = [False, True]\<rparr>)\<rparr>)
   \<and> mask_nuclei_from_stain toy_estimators toy_adata 3 0 55 5 7 ''stain'' None
       = (Inr (), toy_adata\<lparr>layers := (layers toy_adata)
                   (''stain_mask'' \<mapsto> BoolArr \<lparr>shape = [1, 2], vals = [False, True]\<rparr>)\<rparr>)"
proof -
  have present: "''stain'' \<in> dom (layers toy_adata)"
    by (simp add: toy_adata_def)
  have absent: "''dapi'' \<notin> dom (layers toy_adata)"
    by (simp add: toy_adata_def)
  have cells: "fst (mask_cells_from_stain toy_estimators toy_adata 3 0 7 ''stain'' None) = Inr ()"
    by (simp add: mask_cells_from_stain_def toy_adata_def toy_estimators_def select_layer_data_def
          inner_mask_cells_from_stain_def py_index_def)
  have nuclei: "fst (mask_nuclei_from_stain toy_estimators toy_adata 3 0 55 5 7 ''stain'' None) = Inr ()"
    by (simp add: mask_nuclei_from_stain_def toy_adata_def toy_estimators_def select_layer_data_def
          inner_mask_nuclei_from_stain_def py_index_def is_uint8_def np_zip_def np_map_def
          same_shape_def to_real_def)
  have stain: "layers toy_adata ''stain'' = Some (FloatArr \<lparr>shape = [1, 2], vals = [0, 1]\<rparr>)"
    by (simp add: toy_adata_def)
  have m1: "inner_mask_cells_from_stain toy_estimators (FloatArr \<lparr>shape = [1, 2], vals = [0, 1]\<rparr>) 3 0 7
              = Inr \<lparr>shape = [1, 2], vals = [False, True]\<rparr>"
    by (simp add: inner_mask_cells_from_stain_def toy_estimators_def py_index_def np_map_def to_real_def)
  have m2: "inner_mask_nuclei_from_stain toy_estimators (FloatArr \<lparr>shape = [1, 2], vals = [0, 1]\<rparr>) 3 0 55 (- 5) 7
              = Inr \<lparr>shape = [1, 2], vals = [False, True]\<rparr>"
    by (simp add: inner_mask_nuclei_from_stain_def toy_estimators_def py_index_def np_map_def
          to_real_def is_uint8_def np_zip_def same_shape_def)
  note a = mask_from_stain_layer_check [of "''dapi''" toy_adata toy_estimators 3 0 7 None 55 5]
  note p = mask_from_stain_layer_check [of "''stain''" toy_adata toy_estimators 3 0 7 None 55 5]
  from a absent have 1: "\<exists>msg. mask_cells_from_stain toy_estimators toy_adata 3 0 7 ''dapi'' None
              = (Inl (PreprocessingError msg), toy_adata)"
    by blast
  from p present cells stain m1 have 2: "mask_cells_from_stain toy_estimators toy_adata 3 0 7 ''stain'' None
       = (Inr (), toy_adata\<lparr>layers := (layers toy_adata)
                   (''stain_mask'' \<mapsto> BoolArr \<lparr>shape = [1, 2], vals = [False, True]\<rparr>)\<rparr>)"
    by (cases "mask_cells_from_stain toy_estimators toy_adata 3 0 7 ''stain'' None")
       (auto simp: or_default_def)
  from p present nuclei have "\<exists>X m. layers toy_adata ''stain'' = Some X
             \<and> inner_mask_nuclei_from_stain toy_estimators X 3 0 55 (- 5) 7 = Inr m
             \<and> snd (mask_nuclei_from_stain toy_estimators toy_adata 3 0 55 5 7 ''stain'' None)
                 = toy_adata\<lparr>layers := (layers toy_adata)(or_default None (''stain'' @ ''_mask'') \<mapsto> BoolArr m)\<rparr>"
    by (cases "mask_nuclei_from_stain toy_estimators toy_adata 3 0 55 5 7 ''stain'' None") auto
  with nuclei stain m2 have 3: "mask_nuclei_from_stain toy_estimators toy_adata 3 0 55 5 7 ''stain'' None
       = (Inr (), toy_adata\<lparr>layers := (layers toy_adata)
                   (''stain_mask'' \<mapsto> BoolArr \<lparr>shape = [1, 2], vals = [False, True]\<rparr>)\<rparr>)"
    by (cases "mask_nuclei_from_stain toy_estimators toy_adata 3 0 55 5 7 ''stain'' None")
       (auto simp: or_default_def)
  from present absent 1 2 3 show ?thesis by blast
qed

section \<open>Scoring, thresholding and mask storage\<close>

text \<open>
  Claim C2, as stated: after every call of \<open>score_and_mask_pixels\<close> that returns, both
  layers exist and the stored mask is the cleaned thresholding of the stored scores.
  This fails when the caller gives \<open>scores_layer\<close> and \<open>mask_layer\<close> the same name: the
  scores are written under that name (line 318) and the mask is then written over
  them (line 330). On the concrete instance, with both layers named \<open>s\<close>, the call
  returns, the scores \<open>[1/4, 3/4]\<close> were written to \<open>s\<close>, and afterwards \<open>s\<close> holds the mask and
  not the scores, so no scores are stored of which the mask could be the thresholding.
\<close>

theorem same_layer_name_counterexample:
  "fst (score_and_mask_pixels toy_estimators toy_adata ''counts'' 5 ''gauss'' None None None None
          None None BinsDefault None (Some ''s'') (Some ''s'')) = Inr ()
   \<and> WriteLayer ''s'' (FloatArr \<lparr>shape = [1, 2], vals = [1 / 4, 3 / 4]\<rparr>)
       \<in> set (snd (snd (score_and_mask_pixels toy_estimators toy_adata ''counts'' 5 ''gauss''
                          None None None None None None BinsDefault None (Some ''s'') (Some ''s''))))
   \<and> layers (fst (snd (score_and_mask_pixels toy_estimators toy_adata ''counts'' 5 ''gauss''
                          None None None None None None BinsDefault None (Some ''s'') (Some ''s''))))
         ''s''
       = Some (BoolArr \<lparr>shape = [1, 2], vals = [False, True]\<rparr>)
   \<and> layers (fst (snd (score_and_mask_pixels toy_estimators toy_adata ''counts'' 5 ''gauss''
                          None None None None None None BinsDefault None (Some ''s'') (Some ''s''))))
         ''s''
       \<noteq> Some (FloatArr \<lparr>shape = [1, 2], vals = [1 / 4, 3 / 4]\<rparr>)"
  by (simp add: toy_run_same_name)

text \<open>
  Claim C2, amended. A call of \<open>score_and_mask_pixels\<close> that returns has gone through
  these steps in this order: the raw layer is read (then the certain layer and the
  bins, when used), the scores are computed by \<open>_score_pixels\<close>, they are written to
  \<open>scores_layer\<close> (\<open>{layer}_scores\<close> unless named), a threshold is fixed and applied to
  these scores, and the mask is written to \<open>mask_layer\<close> (\<open>{layer}_mask\<close> unless named).
  Afterwards both keys are layers of \<open>adata\<close> and the mask layer holds the cleaned
  thresholding of the scores that were computed and written, or-ed with the certain
  mask exactly when a certain layer was given. The scores layer still holds those
  scores when the two layers have different names; when the caller gives both the
  same name, that layer holds the mask only.
\<close>

theorem score_and_mask_pixels_flow:
  assumes "score_and_mask_pixels est adata layer k method0 mkw ekw vkw bkw threshold mk bins_layer
             certain_layer scores_layer mask_layer = (Inr (), adata', evs)"
  shows "\<exists>Xd cm ec bins eb scores calls t m.
           layers adata layer = Some Xd
         \<and> read_certain adata certain_layer = (Inr cm, ec)
         \<and> read_bins adata layer bins_layer = (Inr bins, eb)
         \<and> score_pixels est (to_real Xd) k (lower method0) mkw ekw vkw bkw cm bins = (Inr scores, calls)
         \<and> evs = [ReadLayer layer] @ ec @ eb
                   @ [Score calls,
                      WriteLayer (or_default scores_layer (layer @ ''_scores'')) (FloatArr scores),
                      AutoThreshold (threshold = None \<or> threshold = Some 0),
                      ApplyThreshold t (choose_mk k (lower method0) mk)]
                   @ (if cm = None then [] else [OrCertain])
                   @ [WriteLayer (or_default mask_layer (layer @ ''_mask'')) (BoolArr m)]
         \<and> or_default scores_layer (layer @ ''_scores'') \<in> dom (layers adata')
         \<and> or_default mask_layer (layer @ ''_mask'') \<in> dom (layers adata')
         \<and> layers adata' (or_default mask_layer (layer @ ''_mask'')) = Some (BoolArr m)
         \<and> (or_default scores_layer (layer @ ''_scores'') \<noteq> or_default mask_layer (layer @ ''_mask'')
              \<longrightarrow> layers adata' (or_default scores_layer (layer @ ''_scores'')) = Some (FloatArr scores))
         \<and> (case cm of
               None \<Rightarrow> m = apply_threshold est scores (choose_mk k (lower method0) mk) t
             | Some c \<Rightarrow> np_ior (apply_threshold est scores (choose_mk k (lower method0) mk) t) c = Inr m)
         \<and> ((cm = None) = (certain_layer = None \<or> certain_layer = Some []))"
proof -
  from score_and_mask_pixels_success [OF assms]
  obtain Xd cm ec bins eb scores calls where
    X: "layers adata layer = Some Xd"
    and C: "read_certain adata certain_layer = (Inr cm, ec)"
    and B: "read_bins adata layer bins_layer = (Inr bins, eb)"
    and S: "score_pixels est (to_real Xd) k (lower method0) mkw ekw vkw bkw cm bins = (Inr scores, calls)"
    and T: "score_and_mask_tail est adata layer k (lower method0) threshold mk cm scores_layer mask_layer
              scores ([ReadLayer layer] @ ec @ eb @ [Score calls]) = (Inr (), adata', evs)"
    by blast
  from score_and_mask_tail_success [OF T]
  obtain t m where
    F: "final_mask est scores (choose_mk k (lower method0) mk) t cm = Inr m"
    and A: "adata' = adata\<lparr>layers := (layers adata)
                 (or_default scores_layer (layer @ ''_scores'') \<mapsto> FloatArr scores,
                  or_default mask_layer (layer @ ''_mask'') \<mapsto> BoolArr m)\<rparr>"
    and E: "evs = ([ReadLayer layer] @ ec @ eb @ [Score calls])
                  @ [WriteLayer (or_default scores_layer (layer @ ''_scores'')) (FloatArr scores),
                     AutoThreshold (threshold = None \<or> threshold = Some 0),
                     ApplyThreshold t (choose_mk k (lower method0) mk)]
                  @ (if cm = None then [] else [OrCertain])
                  @ [WriteLayer (or_default mask_layer (layer @ ''_mask'')) (BoolArr m)]"
    by blast
  have M: "case cm of
             None \<Rightarrow> m = apply_threshold est scores (choose_mk k (lower method0) mk) t
           | Some c \<Rightarrow> np_ior (apply_threshold est scores (choose_mk k (lower method0) mk) t) c = Inr m"
    using F by (auto simp: final_mask_def split: option.splits)
  have N: "(cm = None) = (certain_layer = None \<or> certain_layer = Some [])"
    by (rule read_certain_none_iff [OF C])
  have L: "or_default scores_layer (layer @ ''_scores'') \<in> dom (layers adata')
         \<and> or_default mask_layer (layer @ ''_mask'') \<in> dom (layers adata')
         \<and> layers adata' (or_default mask_layer (layer @ ''_mask'')) = Some (BoolArr m)
         \<and> (or_default scores_layer (layer @ ''_scores'') \<noteq> or_default mask_layer (layer @ ''_mask'')
              \<longrightarrow> layers adata' (or_default scores_layer (layer @ ''_scores'')) = Some (FloatArr scores))"
    by (simp add: A)
  from X C B S E M N L show ?thesis
    by (intro exI [of _ Xd] exI [of _ cm] exI [of _ ec] exI [of _ bins] exI [of _ eb]
          exI [of _ scores] exI [of _ calls] exI [of _ t] exI [of _ m]) simp
qed

theorem score_and_mask_pixels_flow_witness:
  "score_and_mask_pixels toy_estimators toy_adata ''counts'' 5 ''gauss'' None None None None
       None None BinsDefault (Some ''nuclei'') None None
     = (Inr (),
        toy_adata\<lparr>layers := (layers toy_adata)
           (''counts_scores'' \<mapsto> FloatArr \<lparr>shape = [1, 2], vals = [1 / 4, 3 / 4]\<rparr>,
            ''counts_mask'' \<mapsto> BoolArr \<lparr>shape = [1, 2], vals = [True, True]\<rparr>)\<rparr>,
        [ReadLayer ''counts'', ReadLayer ''nuclei'', Score [Conv2d Gauss, ScaleTo01],
         WriteLayer ''counts_scores'' (FloatArr \<lparr>shape = [1, 2], vals = [1 / 4, 3 / 4]\<rparr>),
         AutoThreshold True, ApplyThreshold (1 / 2) 3, OrCertain,
         WriteLayer ''counts_mask'' (BoolArr \<lparr>shape = [1, 2], vals = [True, True]\<rparr>)])
   \<and> (\<exists>c. layers toy_adata ''nuclei'' = Some (BoolArr c)
          \<and> np_ior (apply_threshold toy_estimators \<lparr>shape = [1, 2], vals = [1 / 4, 3 / 4]\<rparr> 3 (1 / 2)) c
              = Inr \<lparr>shape = [1, 2], vals = [True, True]\<rparr>)"
proof -
  note run = toy_run_gauss_certain
  from score_and_mask_pixels_flow [OF run]
  obtain Xd cm ec bins eb scores calls t m where
    C: "read_certain toy_adata (Some ''nuclei'') = (Inr cm, ec)"
    and E: "[ReadLayer ''counts'', ReadLayer ''nuclei'', Score [Conv2d Gauss, ScaleTo01],
         WriteLayer ''counts_scores'' (FloatArr \<lparr>shape = [1, 2], vals = [1 / 4, 3 / 4]\<rparr>),
         AutoThreshold True, ApplyThreshold (1 / 2) 3, OrCertain,
         WriteLayer ''counts_mask'' (BoolArr \<lparr>shape = [1, 2], vals = [True, True]\<rparr>)]
         = [ReadLayer ''counts''] @ ec @ eb
                   @ [Score calls,
                      WriteLayer (or_default None (''counts'' @ ''_scores'')) (FloatArr scores),
                      AutoThreshold (None = (None :: real option) \<or> None = Some (0 :: real)),
                      ApplyThreshold t (choose_mk 5 (lower ''gauss'') None)]
                   @ (if cm = None then [] else [OrCertain])
                   @ [WriteLayer (or_default None (''counts'' @ ''_mask'')) (BoolArr m)]"
    and M: "case cm of
               None \<Rightarrow> m = apply_threshold toy_estimators scores (choose_mk 5 (lower ''gauss'') None) t
             | Some c \<Rightarrow> np_ior (apply_threshold toy_estimators scores (choose_mk 5 (lower ''gauss'') None) t) c = Inr m"
    by blast
  from C have cm: "cm = Some \<lparr>shape = [1, 2], vals = [True, False]\<rparr>" and ec: "ec = [ReadLayer ''nuclei'']"
    by (simp_all add: read_certain_def select_layer_data_def toy_adata_def astype_bool_def)
  have mk: "choose_mk 5 (lower ''gauss'') None = 3"
    by (simp add: choose_mk_def lower_def lower_char_def)
  from E ec cm have "scores = \<lparr>shape = [1, 2], vals = [1 / 4, 3 / 4]\<rparr> \<and> t = 1 / 2
      \<and> m = \<lparr>shape = [1, 2], vals = [True, True]\<rparr>"
    by (cases eb) (auto simp: or_default_def mk)
  with M cm mk have "np_ior (apply_threshold toy_estimators \<lparr>shape = [1, 2], vals = [1 / 4, 3 / 4]\<rparr> 3 (1 / 2))
                \<lparr>shape = [1, 2], vals = [True, False]\<rparr> = Inr \<lparr>shape = [1, 2], vals = [True, True]\<rparr>"
    by simp
  moreover have "layers toy_adata ''nuclei'' = Some (BoolArr \<lparr>shape = [1, 2], vals = [True, False]\<rparr>)"
    by (simp add: toy_adata_def)
  ultimately show ?thesis using run by blast
qed

section \<open>Choice of the threshold\<close>

text \<open>
  Claim C3, as stated: without a \<open>threshold\<close> argument the threshold comes from the
  histogram of the scores (second multi-Otsu threshold for the belief-propagation
  methods, Otsu otherwise), and a threshold given by the caller is the one applied.
  The last part fails for a threshold of zero: line 320 tests \<open>not threshold\<close>, which is
  true for \<open>0\<close> as well as for \<open>None\<close>. On the concrete instance the caller passes \<open>0\<close>, the
  threshold applied is the Otsu value \<open>1/2\<close>, and the stored mask differs from the one a
  cut at \<open>0\<close> would give.
\<close>

theorem threshold_zero_counterexample:
  "ApplyThreshold (1 / 2) 3
     \<in> set (snd (snd (score_and_mask_pixels toy_estimators toy_adata ''counts'' 5 ''gauss''
                         None None None None (Some 0) None BinsDefault None None None)))
   \<and> ApplyThreshold 0 3
     \<notin> set (snd (snd (score_and_mask_pixels toy_estimators toy_adata ''counts'' 5 ''gauss''
                         None None None None (Some 0) None BinsDefault None None None)))
   \<and> layers (fst (snd (score_and_mask_pixels toy_estimators toy_adata ''counts'' 5 ''gauss''
                         None None None None (Some 0) None BinsDefault None None None))) ''counts_mask''
       = Some (BoolArr \<lparr>shape = [1, 2], vals = [False, True]\<rparr>)
   \<and> apply_threshold toy_estimators \<lparr>shape = [1, 2], vals = [1 / 4, 3 / 4]\<rparr> 3 0
       = \<lparr>shape = [1, 2], vals = [True, True]\<rparr>"
  by (simp add: toy_run_threshold_zero) (simp add: toy_estimators_def np_map_def)

text \<open>
  Claim C3, amended. In a call of \<open>score_and_mask_pixels\<close> that returns, the threshold
  applied to the computed scores is the caller's \<open>threshold\<close> when that is given and not
  zero. When it is \<open>None\<close> or zero, the threshold is computed from the scores: the second
  of the 3-class multi-Otsu thresholds when \<open>bp\<close> occurs in the lower-cased method, the
  Otsu threshold otherwise. The stored mask is the one obtained with that threshold.
\<close>

theorem threshold_selection:
  assumes "score_and_mask_pixels est adata layer k method0 mkw ekw vkw bkw threshold mk bins_layer
             certain_layer scores_layer mask_layer = (Inr (), adata', evs)"
  shows "\<exists>scores t m cm.
           WriteLayer (or_default scores_layer (layer @ ''_scores'')) (FloatArr scores) \<in> set evs
         \<and> ApplyThreshold t (choose_mk k (lower method0) mk) \<in> set evs
         \<and> final_mask est scores (choose_mk k (lower method0) mk) t cm = Inr m
         \<and> layers adata' (or_default mask_layer (layer @ ''_mask'')) = Some (BoolArr m)
         \<and> (\<forall>v. threshold = Some v \<and> v \<noteq> 0 \<longrightarrow> t = v)
         \<and> (threshold = None \<or> threshold = Some 0 \<longrightarrow>
              (if py_in ''bp'' (lower method0)
               then 2 \<le> length (threshold_multiotsu est scores 3)
                    \<and> t = threshold_multiotsu est scores 3 ! 1
               else t = threshold_otsu est scores))"
proof -
  from score_and_mask_pixels_success [OF assms]
  obtain cm ec eb scores calls where
    T: "score_and_mask_tail est adata layer k (lower method0) threshold mk cm scores_layer mask_layer
              scores ([ReadLayer layer] @ ec @ eb @ [Score calls]) = (Inr (), adata', evs)"
    by blast
  from score_and_mask_tail_success [OF T]
  obtain t m where
    H: "choose_threshold est scores (lower method0) threshold = Inr t"
    and F: "final_mask est scores (choose_mk k (lower method0) mk) t cm = Inr m"
    and A: "adata' = adata\<lparr>layers := (layers adata)
                 (or_default scores_layer (layer @ ''_scores'') \<mapsto> FloatArr scores,
                  or_default mask_layer (layer @ ''_mask'') \<mapsto> BoolArr m)\<rparr>"
    and E: "evs = ([ReadLayer layer] @ ec @ eb @ [Score calls])
                  @ [WriteLayer (or_default scores_layer (layer @ ''_scores'')) (FloatArr scores),
                     AutoThreshold (threshold = None \<or> threshold = Some 0),
                     ApplyThreshold t (choose_mk k (lower method0) mk)]
                  @ (if cm = None then [] else [OrCertain])
                  @ [WriteLayer (or_default mask_layer (layer @ ''_mask'')) (BoolArr m)]"
    by blast
  have given: "\<forall>v. threshold = Some v \<and> v \<noteq> 0 \<longrightarrow> t = v"
    using H by (auto simp: choose_threshold_def Let_def)
  have auto: "threshold = None \<or> threshold = Some 0 \<longrightarrow>
              (if py_in ''bp'' (lower method0)
               then 2 \<le> length (threshold_multiotsu est scores 3)
                    \<and> t = threshold_multiotsu est scores 3 ! 1
               else t = threshold_otsu est scores)"
    using H by (auto simp: choose_threshold_def py_index_def Let_def split: if_splits)
  have W: "WriteLayer (or_default scores_layer (layer @ ''_scores'')) (FloatArr scores) \<in> set evs"
    and P: "ApplyThreshold t (choose_mk k (lower method0) mk) \<in> set evs"
    by (simp_all add: E)
  have L: "layers adata' (or_default mask_layer (layer @ ''_mask'')) = Some (BoolArr m)"
    by (simp add: A)
  from W P F L given auto show ?thesis by blast
qed

theorem threshold_selection_witness:
  "(\<exists>scores. WriteLayer ''counts_scores'' (FloatArr scores)
       \<in> set (snd (snd (score_and_mask_pixels toy_estimators toy_adata ''counts'' 5 ''gauss''
                         None None None None (Some (1 / 5)) None BinsDefault None None None)))
     \<and> ApplyThreshold (1 / 5) 3
       \<in> set (snd (snd (score_and_mask_pixels toy_estimators toy_adata ''counts'' 5 ''gauss''
                         None None None None (Some (1 / 5)) None BinsDefault None None None))))
   \<and> (\<exists>scores. WriteLayer ''counts_scores'' (FloatArr scores)
       \<in> set (snd (snd (score_and_mask_pixels toy_estimators toy_adata ''counts'' 5 ''gauss''
                         None None None None (Some 0) None BinsDefault None None None)))
     \<and> ApplyThreshold (threshold_otsu toy_estimators scores) 3
       \<in> set (snd (snd (score_and_mask_pixels toy_estimators toy_adata ''counts'' 5 ''gauss''
                         None None None None (Some 0) None BinsDefault None None None))))"
proof -
  have mk: "choose_mk 5 (lower ''gauss'') None = 3"
    by (simp add: choose_mk_def lower_def lower_char_def)
  have nobp: "\<not> py_in ''bp'' (lower ''gauss'')"
    by (simp add: lower_def lower_char_def)
  have nz: "(1 / 5 :: real) \<noteq> 0" by simp
  from threshold_selection [OF toy_run_threshold_given] nz
  have 1: "\<exists>scores. WriteLayer ''counts_scores'' (FloatArr scores)
       \<in> set (snd (snd (score_and_mask_pixels toy_estimators toy_adata ''counts'' 5 ''gauss''
                         None None None None (Some (1 / 5)) None BinsDefault None None None)))
     \<and> ApplyThreshold (1 / 5) 3
       \<in> set (snd (snd (score_and_mask_pixels toy_estimators toy_adata ''counts'' 5 ''gauss''
                         None None None None (Some (1 / 5)) None BinsDefault None None None)))"
    unfolding mk toy_run_threshold_given snd_conv
    by (simp add: or_default_def)
  from threshold_selection [OF toy_run_threshold_zero] nobp
  have 2: "\<exists>scores. WriteLayer ''counts_scores'' (FloatArr scores)
       \<in> set (snd (snd (score_and_mask_pixels toy_estimators toy_adata ''counts'' 5 ''gauss''
                         None None None None (Some 0) None BinsDefault None None None)))
     \<and> ApplyThreshold (threshold_otsu toy_estimators scores) 3
       \<in> set (snd (snd (score_and_mask_pixels toy_estimators toy_adata ''counts'' 5 ''gauss''
                         None None None None (Some 0) None BinsDefault None None None)))"
    unfolding mk toy_run_threshold_zero snd_conv
    by (simp add: or_default_def)
  from 1 2 show ?thesis by blast
qed

section \<open>Pixels known to be occupied\<close>




section \<open>Graph-convolutional clustering\<close>

lemma spagcn_refine_success:
  assumes "spagcn_refine ext adata xa ya refine_shape = (Inr adata', evr)"
  shows "obs adata' ''spagcn_pred'' = obs adata ''spagcn_pred''
       \<and> (case refine_shape of
            None \<Rightarrow> adata' = adata \<and> evr = []
          | Some shp \<Rightarrow> (\<exists>c. obs adata' ''spagcn_pred_refined'' = Some c \<and> dtype c = Category))"
  using assms
  by (auto simp: spagcn_refine_def Let_def obs_assign_def astype_category_def
           split: option.splits sum.splits if_splits)

lemma obs_assign_ok:
  "length vs = length (obs_names adata) \<Longrightarrow>
     obs_assign adata key dt vs = Inr (adata\<lparr>obs := (obs adata)(key \<mapsto> \<lparr>dtype = dt, cells = vs\<rparr>)\<rparr>)"
  by (simp add: obs_assign_def)

lemma obs_assign_bad:
  "length vs \<noteq> length (obs_names adata) \<Longrightarrow> \<exists>e. obs_assign adata key dt vs = Inl e"
  by (simp add: obs_assign_def)

lemma store_pred_ok:
  assumes "length y_pred = length (obs_names adata)"
  shows "store_pred ext adata y_pred
           = (Inr (), adata\<lparr>obs := (obs adata)(''spagcn_pred'' \<mapsto>
                      \<lparr>dtype = Object, cells = map (\<lambda>i. PStr (str_int i)) y_pred\<rparr>)\<rparr>,
              [SetObs ''spagcn_pred'' Numeric, SetObs ''spagcn_pred'' Category,
               SetObs ''spagcn_pred'' Object])"
proof -
  have 1: "obs_assign adata ''spagcn_pred'' Numeric (map PInt y_pred)
             = Inr (adata\<lparr>obs := (obs adata)(''spagcn_pred'' \<mapsto> \<lparr>dtype = Numeric, cells = map PInt y_pred\<rparr>)\<rparr>)"
    using assms by (simp add: obs_assign_ok)
  have 2: "((\<lambda>v. PStr (py_str ext v)) \<circ> PInt) = (\<lambda>i. PStr (str_int i))"
    by (simp add: py_str_def comp_def)
  show ?thesis
    using assms by (simp add: store_pred_def 1 Let_def astype_category_def obs_assign_def 2)
qed

lemma store_pred_bad:
  assumes "length y_pred \<noteq> length (obs_names adata)"
  shows "\<exists>e. store_pred ext adata y_pred = (Inl e, adata, [])"
  using assms by (simp add: store_pred_def obs_assign_def)

lemma store_pred_success:
  assumes "store_pred ext adata y_pred = (Inr u, adata', evp)"
  shows "length y_pred = length (obs_names adata)
       \<and> adata' = adata\<lparr>obs := (obs adata)(''spagcn_pred'' \<mapsto>
                      \<lparr>dtype = Object, cells = map (\<lambda>i. PStr (str_int i)) y_pred\<rparr>)\<rparr>
       \<and> evp = [SetObs ''spagcn_pred'' Numeric, SetObs ''spagcn_pred'' Category,
                SetObs ''spagcn_pred'' Object]"
proof (cases "length y_pred = length (obs_names adata)")
  case True
  from store_pred_ok [OF True, of ext] assms True show ?thesis by simp
next
  case False
  from store_pred_bad [OF False, of ext] assms show ?thesis by auto
qed

lemma spagcn_fit_success:
  assumes "spagcn_fit ext h r adj xa ya n_clusters p refine_shape seed copy evs0 = (Inr v, h', evs)"
  shows "v = (if copy then Some r else None)
       \<and> (\<forall>r'. r' \<noteq> r \<longrightarrow> h' r' = h r')
       \<and> (\<exists>evr res a2 clf a3.
             search_res ext ((h r)\<lparr>uns := (uns (h r))(''adj_spagcn'' \<mapsto> UMatrix adj)\<rparr>) adj
                 (search_l ext p adj (1 / 100) 1000 (1 / 100) 100) n_clusters
                 (7 / 10) (1 / 10) (1 / 200) (1 / 20) 20 (seed, seed, seed) = (res, a2)
           \<and> train ext a2 adj (search_l ext p adj (1 / 100) 1000 (1 / 100) 100) True ''louvain'' res
                 (1 / 200) (1 / 20) 200 (seed, seed, seed) = (clf, a3)
           \<and> length (predict ext clf) = length (obs_names a3)
           \<and> obs (h' r) ''spagcn_pred''
               = Some \<lparr>dtype = Object, cells = map (\<lambda>i. PStr (str_int i)) (predict ext clf)\<rparr>
           \<and> (case refine_shape of
                None \<Rightarrow> evr = []
              | Some shp \<Rightarrow> (\<exists>c. obs (h' r) ''spagcn_pred_refined'' = Some c \<and> dtype c = Category))
           \<and> evs = evs0 @ [SetUns ''adj_spagcn'', SearchL (1 / 100) 1000 (1 / 100) 100,
                           SearchRes (7 / 10) (1 / 10) (1 / 200) (1 / 20) 20, Train 200, Predict,
                           SetObs ''spagcn_pred'' Numeric, SetObs ''spagcn_pred'' Category,
                           SetObs ''spagcn_pred'' Object] @ evr)"
proof -
  let ?a1 = "(h r)\<lparr>uns := (uns (h r))(''adj_spagcn'' \<mapsto> UMatrix adj)\<rparr>"
  let ?l = "search_l ext p adj (1 / 100) 1000 (1 / 100) 100"
  let ?evs1 = "evs0 @ [SetUns ''adj_spagcn'', SearchL (1 / 100) 1000 (1 / 100) 100,
                         SearchRes (7 / 10) (1 / 10) (1 / 200) (1 / 20) 20, Train 200, Predict]"
  obtain res a2 where SR: "search_res ext ?a1 adj ?l n_clusters (7 / 10) (1 / 10) (1 / 200) (1 / 20) 20
                             (seed, seed, seed) = (res, a2)"
    by (cases "search_res ext ?a1 adj ?l n_clusters (7 / 10) (1 / 10) (1 / 200) (1 / 20) 20 (seed, seed, seed)")
  obtain clf a3 where TR: "train ext a2 adj ?l True ''louvain'' res (1 / 200) (1 / 20) 200
                             (seed, seed, seed) = (clf, a3)"
    by (cases "train ext a2 adj ?l True ''louvain'' res (1 / 200) (1 / 20) 200 (seed, seed, seed)")
  obtain o1 a4 evp where SP: "store_pred ext a3 (predict ext clf) = (o1, a4, evp)"
    by (cases "store_pred ext a3 (predict ext clf)")
  obtain o2 evr where RF: "spagcn_refine ext a4 xa ya refine_shape = (o2, evr)"
    by (cases "spagcn_refine ext a4 xa ya refine_shape")
  have fit: "spagcn_fit ext h r adj xa ya n_clusters p refine_shape seed copy evs0
        = (case o1 of
             Inl e \<Rightarrow> (Inl e, h(r := a4), ?evs1 @ evp)
           | Inr u \<Rightarrow>
               (case o2 of
                  Inl e \<Rightarrow> (Inl e, h(r := a4), ?evs1 @ evp @ evr)
                | Inr a5 \<Rightarrow> (Inr (if copy then Some r else None), h(r := a5), ?evs1 @ evp @ evr)))"
    by (simp only: spagcn_fit_def Let_def SR TR SP RF prod.case)
  from fit assms obtain u where o1: "o1 = Inr u"
    by (cases o1) auto
  from fit assms o1 obtain a5 where o2: "o2 = Inr a5"
    by (cases o2) auto
  from fit assms o1 o2 have v: "v = (if copy then Some r else None)"
    and h': "h' = h(r := a5)" and evs: "evs = ?evs1 @ evp @ evr"
    by auto
  note sp = store_pred_success [OF SP [unfolded o1]]
  note rf = spagcn_refine_success [OF RF [unfolded o2]]
  have pred: "obs (h' r) ''spagcn_pred''
               = Some \<lparr>dtype = Object, cells = map (\<lambda>i. PStr (str_int i)) (predict ext clf)\<rparr>"
    using sp rf by (simp add: h')
  have refd: "case refine_shape of
                None \<Rightarrow> evr = []
              | Some shp \<Rightarrow> (\<exists>c. obs (h' r) ''spagcn_pred_refined'' = Some c \<and> dtype c = Category)"
    using rf by (simp add: h' split: option.splits)
  have frame: "\<forall>r'. r' \<noteq> r \<longrightarrow> h' r' = h r'"
    by (simp add: h')
  have ev: "evs = evs0 @ [SetUns ''adj_spagcn'', SearchL (1 / 100) 1000 (1 / 100) 100,
                           SearchRes (7 / 10) (1 / 10) (1 / 200) (1 / 20) 20, Train 200, Predict,
                           SetObs ''spagcn_pred'' Numeric, SetObs ''spagcn_pred'' Category,
                           SetObs ''spagcn_pred'' Object] @ evr"
    using sp by (simp add: evs)
  from sp have len: "length (predict ext clf) = length (obs_names a3)" by simp
  from v frame SR TR len pred refd ev show ?thesis by blast
qed

lemma spagcn_pyg_success:
  assumes "spagcn_pyg ext h r n_clusters p s b refine_shape his_img_path total_umi x_pixel y_pixel
             x_array y_array seed copy = (Inr v, h', evs)"
  shows "\<exists>xa ya xp yp adj a.
           coord_array (h r) x_array 0 = Inr xa
         \<and> coord_array (h r) y_array 1 = Inr ya
         \<and> pixel_array ext (h r) x_pixel xa = Inr xp
         \<and> pixel_array ext (h r) y_pixel ya = Inr yp
         \<and> spagcn_adj ext (h r) xa ya xp yp his_img_path total_umi 1 49 = Inr (adj, a)
         \<and> spagcn_fit ext h r adj xa ya n_clusters p refine_shape seed copy [CalcAdj a] = (Inr v, h', evs)"
  using assms
  by (simp add: spagcn_pyg_def Let_def split: sum.splits prod.splits)

text \<open>
  In a call that returns, the adjacency is computed and stored under \<open>adj_spagcn\<close>, then
  \<open>l\<close> is searched with \<open>start = 0.01\<close>, \<open>end = 1000\<close>, \<open>tol = 0.01\<close>, \<open>max_run = 100\<close>, then the
  resolution with \<open>start = 0.7\<close>, \<open>step = 0.1\<close>, \<open>tol = 5e-3\<close>, \<open>lr = 0.05\<close>, \<open>max_epochs = 20\<close>,
  then the model is trained for at most 200 epochs and the labels are written; the
  result is the reference received when \<open>copy\<close> is set and \<open>None\<close> otherwise, and no other
  object changes.
\<close>

lemma spagcn_pyg_flow:
  assumes "spagcn_pyg ext h r n_clusters p s b refine_shape his_img_path total_umi x_pixel y_pixel
             x_array y_array seed copy = (Inr v, h', evs)"
  shows "v = (if copy then Some r else None)
       \<and> (\<forall>r'. r' \<noteq> r \<longrightarrow> h' r' = h r')
       \<and> (\<exists>a evr. evs = [CalcAdj a, SetUns ''adj_spagcn'', SearchL (1 / 100) 1000 (1 / 100) 100,
                           SearchRes (7 / 10) (1 / 10) (1 / 200) (1 / 20) 20, Train 200, Predict,
                           SetObs ''spagcn_pred'' Numeric, SetObs ''spagcn_pred'' Category,
                           SetObs ''spagcn_pred'' Object] @ evr)
       \<and> (refine_shape \<noteq> None \<longrightarrow>
            (\<exists>c. obs (h' r) ''spagcn_pred_refined'' = Some c \<and> dtype c = Category))"
proof -
  from spagcn_pyg_success [OF assms] obtain xa ya adj a where
    "spagcn_fit ext h r adj xa ya n_clusters p refine_shape seed copy [CalcAdj a] = (Inr v, h', evs)"
    by blast
  from spagcn_fit_success [OF this] show ?thesis
    by (cases refine_shape) auto
qed

lemma spagcn_adj_alpha_beta:
  assumes "spagcn_adj ext adata xa ya xp yp his_img_path total_umi s b = Inr (adj, a)"
  shows "(arg_alpha a = None \<or> arg_alpha a = Some s) \<and> (arg_beta a = None \<or> arg_beta a = Some b)"
  using assms
  by (auto simp: spagcn_adj_def Let_def split: option.splits sum.splits)

lemma toy_run_spagcn:
  "spagcn_pyg toy_spagcn toy_heap 0 2 (1 / 2) 1 49 None None None None None None None 100 True
     = (Inr (Some 0),
        toy_heap(0 := toy_spots\<lparr>
           uns := [''adj_spagcn'' \<mapsto> UMatrix [[0]]],
           obs := [''spagcn_pred'' \<mapsto> \<lparr>dtype = Object, cells = [PStr ''7'']\<rparr>]\<rparr>),
        [CalcAdj \<lparr>arg_x = [PFloat (3 / 2)], arg_y = [PFloat (5 / 2)], arg_x_pixel = None, arg_y_pixel = None,
                  arg_image = None, arg_beta = None, arg_alpha = None, arg_histology = False\<rparr>,
         SetUns ''adj_spagcn'', SearchL (1 / 100) 1000 (1 / 100) 100,
         SearchRes (7 / 10) (1 / 10) (1 / 200) (1 / 20) 20, Train 200, Predict,
         SetObs ''spagcn_pred'' Numeric, SetObs ''spagcn_pred'' Category,
         SetObs ''spagcn_pred'' Object])"
  by (simp add: spagcn_pyg_def spagcn_fit_def spagcn_adj_def spagcn_refine_def store_pred_def
        coord_array_def pixel_array_def py_index_def py_int_def trunc_def obs_assign_def astype_category_def
        py_str_def str_int_def str_nat.simps digit_char_def
        toy_spagcn_def toy_heap_def toy_spots_def toy_adata_def Let_def)

text \<open>
  Claim C4. The adjacency is stored before the searches and the training, the labels
  are stored after it, the refined labels when \<open>refine_shape\<close> is given, and the object
  is returned when \<open>copy\<close> is set: this much holds (lemma \<open>spagcn_pyg_flow\<close>). The column
  \<open>spagcn_pred\<close> however is not categorical. Line 157 makes it categorical and line 158
  overwrites it with a list of Python strings, so in every call that returns it is a
  column of dtype \<open>object\<close> holding the decimal strings of the predicted labels, one per
  observation. The refined column, converted last, is categorical.
\<close>

theorem spagcn_pred_not_categorical:
  assumes "spagcn_pyg ext h r n_clusters p s b refine_shape his_img_path total_umi x_pixel y_pixel
             x_array y_array seed copy = (Inr v, h', evs)"
  shows "\<exists>c. obs (h' r) ''spagcn_pred'' = Some c
           \<and> dtype c = Object \<and> dtype c \<noteq> Category
           \<and> (\<exists>labels. cells c = map (\<lambda>i. PStr (str_int i)) labels)"
proof -
  from spagcn_pyg_success [OF assms] obtain xa ya adj a where
    "spagcn_fit ext h r adj xa ya n_clusters p refine_shape seed copy [CalcAdj a] = (Inr v, h', evs)"
    by blast
  from spagcn_fit_success [OF this] obtain clf where
    "obs (h' r) ''spagcn_pred''
       = Some \<lparr>dtype = Object, cells = map (\<lambda>i. PStr (str_int i)) (predict ext clf)\<rparr>"
    by blast
  then show ?thesis by auto
qed

theorem spagcn_pred_not_categorical_witness:
  "\<exists>c. obs (fst (snd (spagcn_pyg toy_spagcn toy_heap 0 2 (1 / 2) 1 49 None None None None None None None
                        100 True)) 0) ''spagcn_pred'' = Some c
       \<and> dtype c = Object \<and> dtype c \<noteq> Category"
  using spagcn_pred_not_categorical [OF toy_run_spagcn]
  unfolding toy_run_spagcn fst_conv snd_conv
  by blast

text \<open>
  Claim C5. The arguments \<open>s\<close> and \<open>b\<close> of \<open>spagcn_pyg\<close> have no effect: two calls that
  differ only in them give the same outcome, leave the same heap (adjacency, columns and
  all) and make the same calls with the same arguments.
\<close>

theorem spagcn_pyg_ignores_s_b:
  "spagcn_pyg ext h r n_clusters p s b refine_shape his_img_path total_umi x_pixel y_pixel
       x_array y_array seed copy
     = spagcn_pyg ext h r n_clusters p s' b' refine_shape his_img_path total_umi x_pixel y_pixel
         x_array y_array seed copy"
  by (simp add: spagcn_pyg_def)

section \<open>Spatially constrained clustering\<close>

lemma scc_cluster_literal:
  "scc_cluster ext adata adj (Interned ''leiden'') resolution key_added
     = (leiden ext adata adj resolution key_added, [Leiden])"
  "scc_cluster ext adata adj (Interned ''louvain'') resolution key_added
     = (louvain ext adata adj resolution key_added, [Louvain])"
  by (simp_all add: scc_cluster_def is_literal_def)

lemma scc_cluster_events:
  "set (snd (scc_cluster ext adata adj cluster_method resolution key_added)) \<subseteq> {Leiden, Louvain}"
  by (simp add: scc_cluster_def)

text \<open>
  Claim C6. For \<open>cluster_method\<close> in \<open>{'leiden', 'louvain'}\<close> the corresponding clustering is
  run and its labels stored under \<open>key_added\<close>. The code compares with \<open>is\<close> (lines 256 and
  259), that is by object identity. For the interned literal the branch is taken (lemma
  \<open>scc_cluster_literal\<close>). For a string with the text \<open>leiden\<close> that was built at run time
  neither branch is taken: the call returns normally after the adjacency step, no
  clustering is run and the object is left as the adjacency step found it, without any
  labels from a clustering.
\<close>

theorem scc_built_string_skips_clustering:
  "text_of (Built ''leiden'') = ''leiden''
   \<and> scc ext h r min_genes min_cells spatial_key key_added None e_neigh s_neigh
       (Built ''leiden'') resolution False batch_key max_iter_harmony copy
     = (Inr (if copy then Some r else None),
        h(r := (scc_preprocess ext (h r) min_genes min_cells)
                 \<lparr>obsm := (obsm (scc_preprocess ext (h r) min_genes min_cells))
                    (''X_pca'' \<mapsto>
                       map (py_take (snd (compute_pca_components ext (Xmat (scc_preprocess ext (h r) min_genes min_cells)))))
                           (fst (compute_pca_components ext (Xmat (scc_preprocess ext (h r) min_genes min_cells)))))\<rparr>),
        [FilterCells, FilterGenes, Normalize, Log1p, PCA, SpatialAdj])"
  by (simp add: scc_def scc_cluster_def is_literal_def Let_def split: prod.splits)

text \<open>
  Claim C10. \<open>scc\<close> always works on the object it is given, whatever \<open>copy\<close> is: cells and
  genes are filtered, the expression is normalised and log-transformed, the PCA
  embedding and the cluster labels are written into that object, and the object itself
  is returned when \<open>copy\<close> is set. The code does work in place, but it does not always
  get that far. When the caller gives \<open>n_pca_components\<close>, line 230 is skipped and line
  233 reads \<open>pcs\<close>, which only line 230 binds: the call ends in \<open>UnboundLocalError\<close>. By
  then the object behind the reference has been filtered, given the empty \<open>pp\<close> entry,
  normalised and log-transformed, in that order; no PCA embedding is written, no
  clustering is run and nothing is returned, whatever \<open>copy\<close> and the clustering
  method are.
\<close>

theorem scc_pca_components_unbound:
  "scc ext h r min_genes min_cells spatial_key key_added (Some n) e_neigh s_neigh
       cluster_method resolution debatch batch_key max_iter_harmony copy
     = (Inl (UnboundLocalError ''pcs''),
        h(r := log1p ext
                 (normalize_cell_expr_by_size_factors ext
                    ((filter_genes ext (filter_cells ext (h r) min_genes) min_cells)
                       \<lparr>uns := (uns (filter_genes ext (filter_cells ext (h r) min_genes) min_cells))
                                 (''pp'' \<mapsto> UDict [])\<rparr>))),
        [FilterCells, FilterGenes, Normalize, Log1p])"
  by (simp add: scc_def scc_preprocess_def Let_def)

text \<open>
  What does hold for every call: only the object behind the given reference changes,
  and a call that returns (which needs \<open>n_pca_components = None\<close>) has written the PCA
  embedding, applied the clustering step to that same object and returns the reference
  it received when \<open>copy\<close> is set, \<open>None\<close> otherwise.
\<close>

lemma scc_in_place:
  assumes "scc ext h r min_genes min_cells spatial_key key_added n_pca_components e_neigh s_neigh
             cluster_method resolution debatch batch_key max_iter_harmony copy = (out, h', evs)"
  shows "(\<forall>r'. r' \<noteq> r \<longrightarrow> h' r' = h r')
       \<and> take 4 evs = [FilterCells, FilterGenes, Normalize, Log1p]
       \<and> (\<forall>e. out = Inl e \<longrightarrow> h' r = scc_preprocess ext (h r) min_genes min_cells)
       \<and> (\<forall>v. out = Inr v \<longrightarrow>
            v = (if copy then Some r else None)
          \<and> (\<exists>pcs n a6 a7.
                compute_pca_components ext (Xmat (scc_preprocess ext (h r) min_genes min_cells)) = (pcs, n)
              \<and> a6 = (scc_preprocess ext (h r) min_genes min_cells)
                        \<lparr>obsm := (obsm (scc_preprocess ext (h r) min_genes min_cells))
                                   (''X_pca'' \<mapsto> map (py_take n) pcs)\<rparr>
              \<and> a7 = (if debatch
                       then harmony_debatch ext a6 batch_key ''X_pca'' ''X_pca_harmony'' max_iter_harmony
                       else a6)
              \<and> h' r = fst (scc_cluster ext a7
                              (spatial_adj_dyn ext a7 spatial_key
                                 (if debatch then ''X_pca_harmony'' else ''X_pca'') e_neigh s_neigh)
                              cluster_method resolution key_added)))"
proof (cases n_pca_components)
  case (Some n)
  with assms show ?thesis
    by (auto simp: scc_def Let_def)
next
  case None
  obtain pcs n where P: "compute_pca_components ext (Xmat (scc_preprocess ext (h r) min_genes min_cells)) = (pcs, n)"
    by (cases "compute_pca_components ext (Xmat (scc_preprocess ext (h r) min_genes min_cells))")
  let ?a6 = "(scc_preprocess ext (h r) min_genes min_cells)
                        \<lparr>obsm := (obsm (scc_preprocess ext (h r) min_genes min_cells))
                                   (''X_pca'' \<mapsto> map (py_take n) pcs)\<rparr>"
  let ?a7 = "if debatch
             then harmony_debatch ext ?a6 batch_key ''X_pca'' ''X_pca_harmony'' max_iter_harmony
             else ?a6"
  let ?adj = "spatial_adj_dyn ext ?a7 spatial_key (if debatch then ''X_pca_harmony'' else ''X_pca'') e_neigh s_neigh"
  obtain a8 evc where C: "scc_cluster ext ?a7 ?adj cluster_method resolution key_added = (a8, evc)"
    by (cases "scc_cluster ext ?a7 ?adj cluster_method resolution key_added")
  have run: "scc ext h r min_genes min_cells spatial_key key_added None e_neigh s_neigh
             cluster_method resolution debatch batch_key max_iter_harmony copy
        = (Inr (if copy then Some r else None), h(r := a8),
           [FilterCells, FilterGenes, Normalize, Log1p] @ [PCA] @ (if debatch then [Harmony] else [])
             @ [SpatialAdj] @ evc)"
    using C by (simp only: scc_def Let_def option.case P prod.case)
  from run assms None have out: "out = Inr (if copy then Some r else None)"
    and h': "h' = h(r := a8)"
    and evs: "evs = [FilterCells, FilterGenes, Normalize, Log1p] @ [PCA] @ (if debatch then [Harmony] else [])
             @ [SpatialAdj] @ evc"
    by simp_all
  have "h' r = fst (scc_cluster ext ?a7 ?adj cluster_method resolution key_added)"
    by (simp add: h' C)
  with P out h' evs show ?thesis
    by auto
qed

lemma toy_run_scc:
  "scc toy_scc toy_heap 0 500 100 ''spatial'' (Some ''leiden'') None 30 6
       (Interned ''leiden'') None False (Some ''slice'') 10 True
     = (Inr (Some 0),
        toy_heap(0 := toy_spots\<lparr>
           uns := [''pp'' \<mapsto> UDict []],
           obsm := [''X_spatial'' \<mapsto> [[3 / 2, 5 / 2]], ''X_pca'' \<mapsto> [[1 / 4]]],
           obs := [''leiden'' \<mapsto> \<lparr>dtype = Category, cells = [PStr ''0'']\<rparr>]\<rparr>),
        [FilterCells, FilterGenes, Normalize, Log1p, PCA, SpatialAdj, Leiden])"
  by (simp add: scc_def scc_preprocess_def scc_cluster_def is_literal_def py_take_def
        toy_scc_def toy_labels_def toy_heap_def toy_spots_def toy_adata_def Let_def)

lemma scc_in_place_toy:
  "fst (scc toy_scc toy_heap 0 500 100 ''spatial'' (Some ''leiden'') None 30 6
          (Interned ''leiden'') None False (Some ''slice'') 10 True) = Inr (Some 0)
   \<and> fst (snd (scc toy_scc toy_heap 0 500 100 ''spatial'' (Some ''leiden'') None 30 6
          (Interned ''leiden'') None False (Some ''slice'') 10 True)) 1 = toy_heap 1
   \<and> obs (fst (snd (scc toy_scc toy_heap 0 500 100 ''spatial'' (Some ''leiden'') None 30 6
          (Interned ''leiden'') None False (Some ''slice'') 10 True)) 0) ''leiden''
       = Some \<lparr>dtype = Category, cells = [PStr ''0'']\<rparr>
   \<and> obs (toy_heap 0) ''leiden'' = None"
proof -
  have ne: "(1 :: nat) \<noteq> 0" by simp
  from scc_in_place [OF toy_run_scc] ne
  have "fst (snd (scc toy_scc toy_heap 0 500 100 ''spatial'' (Some ''leiden'') None 30 6
          (Interned ''leiden'') None False (Some ''slice'') 10 True)) 1 = toy_heap 1"
    unfolding toy_run_scc fst_conv snd_conv by blast
  then show ?thesis
    unfolding toy_run_scc fst_conv snd_conv
    by (simp add: toy_heap_def toy_spots_def toy_adata_def)
qed

end
